theory Spec2Isabelle
  imports Complex_Main "HOL-Library.List_Lexorder" "HOL-Library.Char_ord"
    "HOL-Library.Product_Lexorder" "HOL-Library.Multiset"
begin

text \<open>
  A shallow embedding of the attendance engine of the employee productivity tracker: the
  upload controller with its helpers (\<^verbatim>\<open>api/controllers/uploadController.js\<close>, class
  \<^verbatim>\<open>Helpers\<close>) and the query routes of the API router.

  \<^item> Numbers are exact rationals; \<^verbatim>\<open>toFixed\<close> rounds them as the standard says it
    rounds the mathematical value.
  \<^item> Dates are time values, integers of milliseconds; the operations of \<^verbatim>\<open>Date\<close> follow
    the language standard, and the time library's strict parser follows the library.
  \<^item> The time zone of the server, the reading of a punch as a time of day and the
    current year are parameters (record \<open>env\<close>).
  \<^item> The store is a pair of lists, passed in and returned. A request handler is a
    function from the request and the store to the response (and the new store).
  \<^item> Every \<^verbatim>\<open>return res.status(...)\<close> and every exception caught by a handler is a
    \<open>Failure\<close> response; a row that the upload skips is \<open>None\<close>.
\<close>

section \<open>Numbers and strings of the JavaScript runtime\<close>

text \<open>
  JavaScript numbers are modelled as exact rationals: hours, sums and percentages are
  computed without binary rounding error. \<open>fixedValue f x\<close> is the number read back by
  \<^verbatim>\<open>parseFloat(x.toFixed(f))\<close>: \<^verbatim>\<open>toFixed\<close> takes the sign off, picks the integer
  \<open>n\<close> with \<open>n / 10^f\<close> closest to \<open>|x|\<close> (the larger one on a tie) and puts the sign back.
\<close>

definition fixedValue :: "nat \<Rightarrow> rat \<Rightarrow> rat" where
  "fixedValue f x =
     (if x < 0 then - (of_int (round (- x * 10 ^ f)) / 10 ^ f)
      else of_int (round (x * 10 ^ f)) / 10 ^ f)"

definition digitChar :: "nat \<Rightarrow> char" where
  "digitChar n = char_of (48 + n)"

fun showNat :: "nat \<Rightarrow> string" where
  "showNat n = (if n < 10 then [digitChar n] else showNat (n div 10) @ [digitChar (n mod 10)])"

definition padStart :: "nat \<Rightarrow> char \<Rightarrow> string \<Rightarrow> string" where
  "padStart n c s = replicate (n - length s) c @ s"

text \<open>
  \<^verbatim>\<open>x.toFixed(f)\<close> as text, for \<open>f > 0\<close> and \<open>|x|\<close> below \<open>10^21\<close> (the rendering
  used in month labels).
\<close>

definition toFixed :: "nat \<Rightarrow> rat \<Rightarrow> string" where
  "toFixed f x =
     (let n = nat (round (\<bar>x\<bar> * 10 ^ f))
      in (if x < 0 then ''-'' else []) @ showNat (n div 10 ^ f) @ ''.'' @
         padStart f (CHR ''0'') (showNat (n mod 10 ^ f)))"

definition isDigit :: "char \<Rightarrow> bool" where
  "isDigit c = (CHR ''0'' \<le> c \<and> c \<le> CHR ''9'')"

definition digitVal :: "char \<Rightarrow> nat" where
  "digitVal c = of_char c - 48"

text \<open>\<^verbatim>\<open>toInt\<close> of a string of decimal digits.\<close>

definition toInt :: "string \<Rightarrow> int" where
  "toInt s = int (foldl (\<lambda>acc c. 10 * acc + digitVal c) 0 s)"

section \<open>Time values (ECMAScript date arithmetic)\<close>

text \<open>
  A time value is an integer number of milliseconds since 1970-01-01T00:00Z. The
  functions below are the abstract operations of the language standard that
  \<^verbatim>\<open>Date.UTC\<close>, \<^verbatim>\<open>getFullYear\<close>, \<^verbatim>\<open>getMonth\<close>, \<^verbatim>\<open>getDate\<close> and
  \<^verbatim>\<open>toISOString\<close> are defined by. A \<^verbatim>\<open>Date\<close> object is an \<open>int option\<close>,
  \<open>None\<close> being the invalid date (time value NaN).
\<close>

definition msPerDay :: int where
  "msPerDay = 86400000"

definition Day :: "int \<Rightarrow> int" where
  "Day t = t div msPerDay"

definition TimeWithinDay :: "int \<Rightarrow> int" where
  "TimeWithinDay t = t mod msPerDay"

definition isLeapYear :: "int \<Rightarrow> bool" where
  "isLeapYear y = ((y mod 4 = 0 \<and> y mod 100 \<noteq> 0) \<or> y mod 400 = 0)"

definition DaysInYear :: "int \<Rightarrow> int" where
  "DaysInYear y = (if isLeapYear y then 366 else 365)"

definition DayFromYear :: "int \<Rightarrow> int" where
  "DayFromYear y =
     365 * (y - 1970) + (y - 1969) div 4 - (y - 1901) div 100 + (y - 1601) div 400"

definition TimeFromYear :: "int \<Rightarrow> int" where
  "TimeFromYear y = msPerDay * DayFromYear y"

text \<open>
  \<open>YearFromTime t\<close> is the largest year \<open>y\<close> with \<open>TimeFromYear y \<le> t\<close>; it is computed
  from the number of days since 1601-01-01 by cycles of 400, 100, 4 and 1 years.
\<close>

definition YearFromTime :: "int \<Rightarrow> int" where
  "YearFromTime t =
     (let n = Day t + 134774;
          q400 = n div 146097; r400 = n mod 146097;
          q100 = min (r400 div 36524) 3; r100 = r400 - q100 * 36524;
          q4 = r100 div 1461; r4 = r100 mod 1461;
          q1 = min (r4 div 365) 3
      in 1601 + 400 * q400 + 100 * q100 + 4 * q4 + q1)"

definition InLeapYear :: "int \<Rightarrow> int" where
  "InLeapYear t = (if isLeapYear (YearFromTime t) then 1 else 0)"

definition DayWithinYear :: "int \<Rightarrow> int" where
  "DayWithinYear t = Day t - DayFromYear (YearFromTime t)"

definition MonthFromTime :: "int \<Rightarrow> int" where
  "MonthFromTime t =
     (let d = DayWithinYear t; l = InLeapYear t
      in if d < 31 then 0
         else if d < 59 + l then 1
         else if d < 90 + l then 2
         else if d < 120 + l then 3
         else if d < 151 + l then 4
         else if d < 181 + l then 5
         else if d < 212 + l then 6
         else if d < 243 + l then 7
         else if d < 273 + l then 8
         else if d < 304 + l then 9
         else if d < 334 + l then 10
         else 11)"

text \<open>Days of the year before the first of month \<open>m\<close> (0 = January).\<close>

definition monthStart :: "int \<Rightarrow> int \<Rightarrow> int" where
  "monthStart m l =
     (if m = 0 then 0 else if m = 1 then 31 else
      (if m = 2 then 59 else if m = 3 then 90 else if m = 4 then 120
       else if m = 5 then 151 else if m = 6 then 181 else if m = 7 then 212
       else if m = 8 then 243 else if m = 9 then 273 else if m = 10 then 304
       else 334) + l)"

definition DateFromTime :: "int \<Rightarrow> int" where
  "DateFromTime t = DayWithinYear t - monthStart (MonthFromTime t) (InLeapYear t) + 1"

definition WeekDay :: "int \<Rightarrow> int" where
  "WeekDay t = (Day t + 4) mod 7"

text \<open>
  \<open>MakeDay\<close> for integer arguments: a month outside 0..11 carries into the year.
\<close>

definition MakeDay :: "int \<Rightarrow> int \<Rightarrow> int \<Rightarrow> int" where
  "MakeDay year month dt =
     (let ym = year + month div 12; mn = month mod 12
      in DayFromYear ym + monthStart mn (if isLeapYear ym then 1 else 0) + dt - 1)"

definition MakeDate :: "int \<Rightarrow> int \<Rightarrow> int" where
  "MakeDate day time = day * msPerDay + time"

definition TimeClip :: "int \<Rightarrow> int option" where
  "TimeClip t = (if \<bar>t\<bar> > 8640000000000000 then None else Some t)"

text \<open>
  \<^verbatim>\<open>Date.UTC(year, month, day, 0, 0, 0, 0)\<close>. A year from 0 to 99 is read as
  1900 + year, as the standard prescribes.
\<close>

definition DateUTC :: "int \<Rightarrow> int \<Rightarrow> int \<Rightarrow> int option" where
  "DateUTC year month dt =
     (let yr = (if 0 \<le> year \<and> year \<le> 99 then 1900 + year else year)
      in TimeClip (MakeDate (MakeDay yr month dt) 0))"

text \<open>
  The date part of \<^verbatim>\<open>toISOString()\<close>, that is \<^verbatim>\<open>toISOString().split('T')[0]\<close>:
  four digits for the years 0 to 9999, a sign and six digits otherwise.
\<close>

definition isoYear :: "int \<Rightarrow> string" where
  "isoYear y =
     (if 0 \<le> y \<and> y \<le> 9999 then padStart 4 (CHR ''0'') (showNat (nat y))
      else (if y < 0 then ''-'' else ''+'') @ padStart 6 (CHR ''0'') (showNat (nat \<bar>y\<bar>)))"

definition isoDate :: "int \<Rightarrow> string" where
  "isoDate t =
     isoYear (YearFromTime t) @ ''-'' @
     padStart 2 (CHR ''0'') (showNat (nat (MonthFromTime t + 1))) @ ''-'' @
     padStart 2 (CHR ''0'') (showNat (nat (DateFromTime t)))"

text \<open>\<^verbatim>\<open>moment.utc(d).format('dddd')\<close>: the English name of the UTC weekday.\<close>

definition dayNames :: "string list" where
  "dayNames = [''Sunday'', ''Monday'', ''Tuesday'', ''Wednesday'', ''Thursday'',
               ''Friday'', ''Saturday'']"

definition formatDddd :: "int \<Rightarrow> string" where
  "formatDddd t = dayNames ! nat (WeekDay t)"

section \<open>Spreadsheet cells\<close>

text \<open>
  The value of a worksheet cell: empty, text, a number, a boolean, a \<^verbatim>\<open>Date\<close>
  (possibly invalid) or another object (formula, rich text, hyperlink, error).
\<close>

datatype cell = CNull | CStr string | CNum rat | CBool bool | CDate "int option" | CObj

text \<open>JavaScript truthiness: \<open>\<not> truthy c\<close> is \<^verbatim>\<open>!c\<close>.\<close>

fun truthy :: "cell \<Rightarrow> bool" where
  "truthy CNull = False"
| "truthy (CStr s) = (s \<noteq> [])"
| "truthy (CNum x) = (x \<noteq> 0)"
| "truthy (CBool b) = b"
| "truthy (CDate d) = True"
| "truthy CObj = True"

text \<open>\<^verbatim>\<open>c || null\<close>\<close>

definition orNull :: "cell \<Rightarrow> cell" where
  "orNull c = (if truthy c then c else CNull)"

section \<open>The environment of the server process\<close>

text \<open>
  What the code reads from its surroundings and from the time library:
  \<^item> \<open>localTime\<close>: the local time value of a time value in the server's time zone
    (\<^verbatim>\<open>getFullYear\<close>, \<^verbatim>\<open>getMonth\<close> and \<^verbatim>\<open>getDate\<close> read the fields of it);
  \<^item> \<open>utcOfLocal\<close>: the time value of a local time value (\<^verbatim>\<open>new Date(y, m, d)\<close>);
  \<^item> \<open>momentHM\<close>: the instant \<^verbatim>\<open>moment(c, 'HH:mm')\<close> denotes, \<open>None\<close> when the
    result is not valid;
  \<^item> \<open>currentYear\<close>: \<^verbatim>\<open>new Date().getFullYear()\<close>.
\<close>

record env =
  localTime :: "int \<Rightarrow> int"
  utcOfLocal :: "int \<Rightarrow> int"
  momentHM :: "cell \<Rightarrow> int option"
  currentYear :: int

section \<open>Helpers\<close>

definition workdayHours :: "string \<rightharpoonup> rat" where
  "workdayHours =
     [''Monday'' \<mapsto> 17 / 2, ''Tuesday'' \<mapsto> 17 / 2, ''Wednesday'' \<mapsto> 17 / 2,
      ''Thursday'' \<mapsto> 17 / 2, ''Friday'' \<mapsto> 17 / 2, ''Saturday'' \<mapsto> 4, ''Sunday'' \<mapsto> 0]"

text \<open>\<^verbatim>\<open>this.workdayHours[dayOfWeek] || 0\<close>\<close>

definition getExpectedHours :: "string \<Rightarrow> rat" where
  "getExpectedHours dayOfWeek = (case workdayHours dayOfWeek of None \<Rightarrow> 0 | Some h \<Rightarrow> h)"

text \<open>
  \<^verbatim>\<open>outMoment.diff(inMoment, 'hours', true)\<close> is the difference of the two instants
  divided by 3600000.
\<close>

definition calculateWorkedHours :: "env \<Rightarrow> cell \<Rightarrow> cell \<Rightarrow> rat" where
  "calculateWorkedHours e inT outT =
     (if \<not> truthy inT \<or> \<not> truthy outT then 0
      else case momentHM e inT of
             None \<Rightarrow> 0
           | Some inMoment \<Rightarrow>
               (case momentHM e outT of
                  None \<Rightarrow> 0
                | Some outMoment \<Rightarrow>
                    (let hours = of_int (outMoment - inMoment) / 3600000
                     in max 0 (fixedValue 2 hours))))"

section \<open>Strict parsing of date strings by the time library\<close>

text \<open>
  \<^verbatim>\<open>moment(string, formats, true)\<close>, after the library's parser. A format is a list of
  tokens. For each token the parser searches the rest of the input for the first match
  of the token's strict pattern (four digits for \<^verbatim>\<open>YYYY\<close>, two for \<^verbatim>\<open>MM\<close> and
  \<^verbatim>\<open>DD\<close>, the character itself for a separator), drops what precedes the match and
  counts the matched characters; a token without a match is recorded as unused.
\<close>

datatype token = YYYY | MM | DD | Lit char

fun findDigits :: "nat \<Rightarrow> string \<Rightarrow> (string \<times> string) option" where
  "findDigits n [] = None"
| "findDigits n (c # cs) =
     (if n \<le> length (c # cs) \<and> list_all isDigit (take n (c # cs))
      then Some (take n (c # cs), drop n (c # cs))
      else findDigits n cs)"

fun findChar :: "char \<Rightarrow> string \<Rightarrow> string option" where
  "findChar c [] = None"
| "findChar c (x # xs) = (if x = c then Some xs else findChar c xs)"

record parsing =
  input :: string
  aYear :: "int option"
  aMonth :: "int option"
  aDate :: "int option"
  unusedTokens :: nat
  totalParsedInputLength :: nat

fun parseToken :: "parsing \<Rightarrow> token \<Rightarrow> parsing" where
  "parseToken p YYYY =
     (case findDigits 4 (input p) of
        None \<Rightarrow> p\<lparr>unusedTokens := unusedTokens p + 1\<rparr>
      | Some (m, r) \<Rightarrow>
          p\<lparr>input := r, aYear := Some (toInt m),
            totalParsedInputLength := totalParsedInputLength p + 4\<rparr>)"
| "parseToken p MM =
     (case findDigits 2 (input p) of
        None \<Rightarrow> p\<lparr>unusedTokens := unusedTokens p + 1\<rparr>
      | Some (m, r) \<Rightarrow>
          p\<lparr>input := r, aMonth := Some (toInt m - 1),
            totalParsedInputLength := totalParsedInputLength p + 2\<rparr>)"
| "parseToken p DD =
     (case findDigits 2 (input p) of
        None \<Rightarrow> p\<lparr>unusedTokens := unusedTokens p + 1\<rparr>
      | Some (m, r) \<Rightarrow>
          p\<lparr>input := r, aDate := Some (toInt m),
            totalParsedInputLength := totalParsedInputLength p + 2\<rparr>)"
| "parseToken p (Lit c) =
     (case findChar c (input p) of
        None \<Rightarrow> p\<lparr>unusedTokens := unusedTokens p + 1\<rparr>
      | Some r \<Rightarrow>
          p\<lparr>input := r, totalParsedInputLength := totalParsedInputLength p + 1\<rparr>)"

text \<open>The result of parsing a string against one format, with the flags kept.\<close>

record config =
  ymd :: "(int \<times> int \<times> int) option"
  charsLeftOver :: nat
  unusedCount :: nat

definition configFromStringAndFormat :: "string \<Rightarrow> token list \<Rightarrow> config" where
  "configFromStringAndFormat s f =
     (let p = foldl parseToken
                \<lparr>input = s, aYear = None, aMonth = None, aDate = None,
                 unusedTokens = 0, totalParsedInputLength = 0\<rparr> f
      in \<lparr>ymd = (case (aYear p, aMonth p, aDate p) of
                      (Some y, Some m, Some d) \<Rightarrow> Some (y, m, d)
                    | _ \<Rightarrow> None),
          charsLeftOver = length s - totalParsedInputLength p,
          unusedCount = unusedTokens p\<rparr>)"

definition daysInMonth :: "int \<Rightarrow> int \<Rightarrow> int" where
  "daysInMonth year month =
     (let modMonth = month mod 12; y = year + (month - modMonth) div 12
      in if modMonth = 1 then (if isLeapYear y then 29 else 28)
         else 31 - ((modMonth mod 7) mod 2))"

text \<open>
  A strictly parsed result is valid when every token was used, no input is left over,
  and neither the month nor the day of the month overflows.
\<close>

definition isValid :: "config \<Rightarrow> bool" where
  "isValid c =
     (case ymd c of
        None \<Rightarrow> False
      | Some (y, m, d) \<Rightarrow>
          \<not> (m < 0 \<or> m > 11) \<and> \<not> (d < 1 \<or> d > daysInMonth y m) \<and>
          charsLeftOver c = 0 \<and> unusedCount c = 0)"

text \<open>
  The loop over the formats keeps the best result so far, its score and whether it is
  valid: an unparsed character costs 1 and an unused token 10.
\<close>

definition tryFormat ::
  "string \<Rightarrow> config option \<times> nat option \<times> bool \<Rightarrow> token list \<Rightarrow>
   config option \<times> nat option \<times> bool" where
  "tryFormat s st f =
     (case st of (bestMoment, scoreToBeat, bestFormatIsValid) \<Rightarrow>
        (let tempConfig = configFromStringAndFormat s f;
             validFormatFound = isValid tempConfig;
             currentScore = charsLeftOver tempConfig + unusedCount tempConfig * 10
         in if \<not> bestFormatIsValid then
              (if (case scoreToBeat of None \<Rightarrow> True | Some sc \<Rightarrow> currentScore < sc) \<or>
                  validFormatFound
               then (Some tempConfig, Some currentScore, validFormatFound)
               else st)
            else
              (if (case scoreToBeat of None \<Rightarrow> False | Some sc \<Rightarrow> currentScore < sc)
               then (Some tempConfig, Some currentScore, bestFormatIsValid)
               else st)))"

definition configFromStringAndArray :: "string \<Rightarrow> token list list \<Rightarrow> config option" where
  "configFromStringAndArray s fs = fst (foldl (tryFormat s) (None, None, False) fs)"

text \<open>
  \<open>momentStrict s fs\<close> gives the year, month (0 = January) and day of the month of
  \<^verbatim>\<open>moment(s, fs, true)\<close>, or \<open>None\<close> when \<^verbatim>\<open>isValid()\<close> is false.
\<close>

definition momentStrict :: "string \<Rightarrow> token list list \<Rightarrow> (int \<times> int \<times> int) option" where
  "momentStrict s fs =
     (case configFromStringAndArray s fs of
        None \<Rightarrow> None
      | Some c \<Rightarrow> if isValid c then ymd c else None)"

section \<open>Upload: from worksheet rows to attendance records\<close>

datatype status = Present | Leave | Holiday | Weekend

text \<open>
  An entry of a statistic's \<^verbatim>\<open>dailyBreakdown\<close>: date (as \<^verbatim>\<open>YYYY-MM-DD\<close> text), day,
  workedHours, isLeave, isHoliday, expectedHours, inTime, outTime, status.
\<close>

datatype daily = Daily string string rat bool bool rat cell cell status

text \<open>
  An employee's entry in the answer of the year query. \<open>monthlyData\<close> holds, per month,
  the month number, the productivity and the leaves taken.
\<close>

record yearEmployee =
  employeeId :: "nat option"
  employeeName :: string
  totalWorkedHours :: rat
  totalLeavesTaken :: nat
  totalLeavesAllowed :: nat
  avgProductivity :: rat
  avgMonthlyHours :: rat
  exceededLimitMonths :: nat
  bestMonth :: string
  worstMonth :: string
  monthlyData :: "(int \<times> rat \<times> nat) list"

text \<open>
  The statistic of an employee for a month: \<open>summary\<close> without and \<open>statistic\<close> with the
  daily breakdown.
\<close>

record summary =
  employeeName :: string
  totalExpectedHours :: rat
  totalWorkedHours :: rat
  leavesTaken :: nat
  leavesAllowed :: nat
  productivity :: rat

record statistic = summary +
  dailyBreakdown :: "daily list"

record attendance =
  employeeName :: string
  date :: int
  inTime :: cell
  outTime :: cell
  workedHours :: rat
  isLeave :: bool
  isHoliday :: bool
  dayOfWeek :: string
  monthYear :: string
  expectedHours :: rat
  status :: status
  employeeId :: "nat option"

text \<open>
  A worksheet row: its number and the values of its first four cells. The first cell,
  the employee's name, is text; the empty string stands for an empty cell.
\<close>

record row =
  rowNumber :: nat
  getCell1 :: string
  getCell2 :: cell
  getCell3 :: cell
  getCell4 :: cell

definition formats :: "token list list" where
  "formats =
     [ [YYYY, Lit (CHR ''-''), MM, Lit (CHR ''-''), DD],
      [DD, Lit (CHR ''/''), MM, Lit (CHR ''/''), YYYY],
      [MM, Lit (CHR ''/''), DD, Lit (CHR ''/''), YYYY],
      [DD, Lit (CHR ''-''), MM, Lit (CHR ''-''), YYYY] ]"

text \<open>
  The date column of a row, turned into a time value at UTC midnight; \<open>None\<close> when the
  row is skipped (an invalid date, a string no format reads, a value of another type, or
  a result outside the range of time values, on which \<^verbatim>\<open>toISOString\<close> throws inside
  the row's \<^verbatim>\<open>try\<close>).
\<close>

definition parseDate :: "env \<Rightarrow> cell \<Rightarrow> int option" where
  "parseDate e dateValue =
     (case dateValue of
        CDate None \<Rightarrow> None
      | CDate (Some t) \<Rightarrow>
          (let l = localTime e t;
               year = YearFromTime l; month = MonthFromTime l; day = DateFromTime l
           in DateUTC year month day)
      | CStr s \<Rightarrow>
          (case momentStrict s formats of
             Some (y, m, d) \<Rightarrow> DateUTC y m d
           | None \<Rightarrow> None)
      | CNum x \<Rightarrow>
          (case DateUTC 1899 11 30 of
             None \<Rightarrow> None
           | Some excelEpoch \<Rightarrow> TimeClip (excelEpoch + \<lfloor>x\<rfloor> * 86400000))
      | _ \<Rightarrow> None)"

text \<open>
  The status, leave flag and worked hours of a day, from the name of the weekday and the
  two punches.
\<close>

definition classify :: "env \<Rightarrow> string \<Rightarrow> cell \<Rightarrow> cell \<Rightarrow> bool \<times> rat \<times> status" where
  "classify e dow inT outT =
     (let isWeekend = (dow = ''Saturday'' \<or> dow = ''Sunday'');
          isHol = (dow = ''Sunday'')
      in if isHol then (False, 0, Holiday)
         else if isWeekend \<and> dow = ''Sunday'' then (False, 0, Weekend)
         else if \<not> truthy inT \<or> \<not> truthy outT then (True, 0, Leave)
         else (let wh = calculateWorkedHours e inT outT
               in if wh = 0 then (True, wh, Leave) else (False, wh, Present)))"

definition processRow :: "env \<Rightarrow> string \<Rightarrow> row \<Rightarrow> attendance option" where
  "processRow e my r =
     (if rowNumber r = 1 then None
      else if getCell1 r = [] \<or> \<not> truthy (getCell2 r) then None
      else case parseDate e (getCell2 r) of
             None \<Rightarrow> None
           | Some parsedDate \<Rightarrow>
               (let dow = formatDddd parsedDate in
                case classify e dow (getCell3 r) (getCell4 r) of
                  (leave, wh, st) \<Rightarrow>
                    Some \<lparr>employeeName = getCell1 r, date = parsedDate,
                          inTime = orNull (getCell3 r), outTime = orNull (getCell4 r),
                          workedHours = wh, isLeave = leave,
                          isHoliday = (dow = ''Sunday''), dayOfWeek = dow,
                          monthYear = my, expectedHours = getExpectedHours dow,
                          status = st, employeeId = None\<rparr>))"

definition eachRow :: "env \<Rightarrow> string \<Rightarrow> row list \<Rightarrow> attendance list" where
  "eachRow e my rows = List.map_filter (processRow e my) rows"

section \<open>The store\<close>

text \<open>
  Modelled from the spec: the persistence collaborator (the Attendance and Employee
  models). The store keeps the attendance records and the employee identities in
  insertion order; \<open>findOne\<close>, \<open>deleteMany\<close>, \<open>insertMany\<close> and \<open>findOrCreate\<close> are the
  operations of the persistence contract, keyed by the month label and by the name.
\<close>

record employee =
  name :: string
  leavesPerMonth :: nat
  eid :: nat

record db =
  attendances :: "attendance list"
  employees :: "employee list"

definition findOne :: "string \<Rightarrow> db \<Rightarrow> attendance option" where
  "findOne my d = List.find (\<lambda>a. monthYear a = my) (attendances d)"

definition deleteMany :: "string \<Rightarrow> db \<Rightarrow> db" where
  "deleteMany my d = d\<lparr>attendances := filter (\<lambda>a. monthYear a \<noteq> my) (attendances d)\<rparr>"

definition insertMany :: "attendance list \<Rightarrow> db \<Rightarrow> db" where
  "insertMany rs d = d\<lparr>attendances := attendances d @ rs\<rparr>"

definition findOrCreate :: "string \<Rightarrow> db \<Rightarrow> employee \<times> db" where
  "findOrCreate n d =
     (case List.find (\<lambda>x. name x = n) (employees d) of
        Some x \<Rightarrow> (x, d)
      | None \<Rightarrow>
          (let x = \<lparr>name = n, leavesPerMonth = 2,
                    eid = Suc (fold max (map eid (employees d)) 0)\<rparr>
           in (x, d\<lparr>employees := employees d @ [x]\<rparr>)))"

section \<open>The upload controller\<close>

text \<open>The keys of a \<^verbatim>\<open>Map\<close> or \<^verbatim>\<open>Set\<close> filled from a list: first occurrences, in order.\<close>

fun uniq :: "'a list \<Rightarrow> 'a list" where
  "uniq [] = []"
| "uniq (x # xs) = x # uniq (filter (\<lambda>y. y \<noteq> x) xs)"

definition isWhite :: "char \<Rightarrow> bool" where
  "isWhite c = (c = CHR '' '' \<or> (9 \<le> (of_char c :: nat) \<and> (of_char c :: nat) \<le> 13))"

definition isHexDigit :: "char \<Rightarrow> bool" where
  "isHexDigit c =
     (isDigit c \<or> (CHR ''a'' \<le> c \<and> c \<le> CHR ''f'') \<or> (CHR ''A'' \<le> c \<and> c \<le> CHR ''F''))"

definition hexVal :: "char \<Rightarrow> nat" where
  "hexVal c =
     (if isDigit c then of_char c - 48
      else if CHR ''a'' \<le> c then of_char c - 87 else of_char c - 55)"

text \<open>
  \<^verbatim>\<open>parseInt(s)\<close>: leading white space (of ASCII) and a sign are skipped, a prefix
  \<^verbatim>\<open>0x\<close> selects base 16, and the longest run of digits is read; \<open>None\<close> is NaN.
\<close>

definition parseInt :: "string \<Rightarrow> int option" where
  "parseInt s =
     (let s1 = dropWhile isWhite s;
          sgn = (if take 1 s1 = ''-'' then - 1 else 1);
          s2 = (if take 1 s1 = ''-'' \<or> take 1 s1 = ''+'' then drop 1 s1 else s1)
      in if take 2 s2 = ''0x'' \<or> take 2 s2 = ''0X'' then
           (let ds = takeWhile isHexDigit (drop 2 s2)
            in if ds = [] then None
               else Some (sgn * int (foldl (\<lambda>acc c. 16 * acc + hexVal c) 0 ds)))
         else
           (let ds = takeWhile isDigit s2
            in if ds = [] then None else Some (sgn * toInt ds)))"

text \<open>
  The uploaded file: a workbook that cannot be read (loading it throws, with the given
  message) or the rows of its first worksheet. The body fields of the request are text;
  the empty string stands for a field that was not sent.
\<close>

datatype upload = Unreadable string | Worksheet "row list"

record request =
  reqFile :: "upload option"
  month :: string
  year :: string
  override :: string

datatype json = JStr string | JNum rat

text \<open>
  A response: a failure with its status code and payload, or the payload of a success.
  \<open>Uploaded\<close>: message, totalRecords, totalEmployees, monthYear, statistics.
  \<open>MonthData\<close>: monthYear, statistics, totalRecords, totalEmployees, month, year
  (\<open>None\<close> is NaN).
  \<open>PreviousMonth\<close>: year, month (\<open>None\<close> is NaN), statistics.
  \<open>YearAggregated\<close>: year, totalEmployees, totalHours, totalLeaves, avgProductivity,
  avgHours, employees, monthCount.
  \<open>Workforce\<close>: year, month, dailyBreakdown; each day has its date and, per employee,
  employeeId, employeeName, workedHours, isLeave, isHoliday.
  \<open>EmployeesProductivity\<close>: year, employees; each has employeeId, employeeName,
  totalWorkedHours, leaveDays, productivity.
\<close>

datatype response =
    Failure nat "(string \<times> json) list"
  | Uploaded string nat nat string "statistic list"
  | MonthData string "statistic list" nat nat "int option" "int option"
  | PreviousMonth "int option" "int option" "summary list"
  | YearAggregated int nat rat nat rat rat "yearEmployee list" nat
  | Workforce int int "(string \<times> (nat option \<times> string \<times> rat \<times> bool \<times> bool) list) list"
  | EmployeesProductivity int "(nat option \<times> string \<times> rat \<times> nat \<times> rat) list"

definition toDaily :: "attendance \<Rightarrow> daily" where
  "toDaily r =
     Daily (isoDate (date r)) (dayOfWeek r) (workedHours r) (isLeave r) (isHoliday r)
       (expectedHours r) (inTime r) (outTime r) (status r)"

text \<open>The statistic of one employee computed after an upload, from the rows just read.\<close>

definition uploadStatistic :: "attendance list \<Rightarrow> string \<Rightarrow> statistic" where
  "uploadStatistic attendanceData n =
     (let employeeRecords = filter (\<lambda>r. attendance.employeeName r = n) attendanceData;
          totalExpected = foldl (\<lambda>sum r. sum + expectedHours r) 0 employeeRecords;
          totalWorked = foldl (\<lambda>sum r. sum + workedHours r) 0 employeeRecords;
          leaves = length (filter (\<lambda>r. isLeave r \<and> \<not> isHoliday r) employeeRecords);
          prod = (if totalExpected > 0 then (totalWorked / totalExpected) * 100 else 0)
      in \<lparr>summary.employeeName = n,
          totalExpectedHours = fixedValue 2 totalExpected,
          totalWorkedHours = fixedValue 2 totalWorked,
          leavesTaken = leaves,
          leavesAllowed = 2,
          productivity = fixedValue 2 prod,
          dailyBreakdown = map toDaily (sort_key date employeeRecords)\<rparr>)"

text \<open>
  Every employee of the batch is looked up or created, and the batch's records of that
  name receive the identity's key.
\<close>

fun assignEmployees :: "string list \<Rightarrow> attendance list \<times> db \<Rightarrow> attendance list \<times> db" where
  "assignEmployees [] st = st"
| "assignEmployees (n # ns) (attendanceData, d) =
     (case findOrCreate n d of
        (dbEmployee, d') \<Rightarrow>
          assignEmployees ns
            (map (\<lambda>r. if attendance.employeeName r = n
                       then r\<lparr>employeeId := Some (eid dbEmployee)\<rparr> else r)
               attendanceData, d'))"

definition uploadAttendance :: "env \<Rightarrow> request \<Rightarrow> db \<Rightarrow> response \<times> db" where
  "uploadAttendance e req d =
     (case reqFile req of
        None \<Rightarrow>
          (Failure 400 [(''error'', JStr ''No file provided''),
                        (''message'', JStr ''Please select an Excel file to upload'')], d)
      | Some f \<Rightarrow>
          if month req = [] \<or> year req = [] then
            (Failure 400 [(''error'', JStr ''Missing parameters''),
                          (''message'', JStr ''Month and year are required'')], d)
          else if (case parseInt (month req) of
                     None \<Rightarrow> True
                   | Some monthNum \<Rightarrow> monthNum < 1 \<or> monthNum > 12) then
            (Failure 400 [(''error'', JStr ''Invalid month''),
                          (''message'', JStr ''Month must be between 1 and 12'')], d)
          else
            (let my = year req @ ''-'' @ padStart 2 (CHR ''0'') (month req);
                 existingData = findOne my d
             in if existingData \<noteq> None \<and> override req \<noteq> ''true'' then
                  (Failure 409
                     [(''error'', JStr ''Data already exists''),
                      (''message'', JStr (''Attendance data for '' @ my @
                          '' already exists. Use override=true to replace.'')),
                      (''monthYear'', JStr my)], d)
                else case f of
                  Unreadable msg \<Rightarrow>
                    (Failure 500 [(''error'', JStr ''Upload failed''),
                                  (''message'', JStr msg)], d)
                | Worksheet rows \<Rightarrow>
                    (let attendanceData = eachRow e my rows
                     in if attendanceData = [] then
                          (Failure 400
                             [(''error'', JStr ''No valid data''),
                              (''message'',
                               JStr ''Excel file does not contain valid attendance data'')], d)
                        else
                          (let names = uniq (map attendance.employeeName attendanceData)
                           in case assignEmployees names (attendanceData, d) of
                                (records, d1) \<Rightarrow>
                                  (let d2 = (if existingData \<noteq> None \<and> override req = ''true''
                                             then deleteMany my d1 else d1);
                                       d3 = insertMany records d2
                                   in (Uploaded (''File uploaded successfully for '' @ my)
                                         (length records) (length names) my
                                         (map (uploadStatistic records) names), d3))))))"

section \<open>Queries\<close>

text \<open>
  \<^verbatim>\<open>Attendance.find({ monthYear }).sort({ employeeName: 1, date: 1 })\<close>: the records
  of a month label, ordered by name and then by date.
\<close>

definition findMonth :: "string \<Rightarrow> db \<Rightarrow> attendance list" where
  "findMonth my d =
     sort_key (\<lambda>a. (attendance.employeeName a, date a))
       (filter (\<lambda>a. monthYear a = my) (attendances d))"

definition monthStatistic :: "attendance list \<Rightarrow> string \<Rightarrow> statistic" where
  "monthStatistic attendanceData n =
     (let employeeData = filter (\<lambda>d. attendance.employeeName d = n) attendanceData;
          totalExpected = foldl (\<lambda>sum d. sum + expectedHours d) 0 employeeData;
          totalWorked = foldl (\<lambda>sum d. sum + workedHours d) 0 employeeData;
          leaves = length (filter (\<lambda>d. isLeave d \<and> \<not> isHoliday d) employeeData);
          prod = (if totalExpected > 0 then (totalWorked / totalExpected) * 100 else 0)
      in \<lparr>summary.employeeName = n,
          totalExpectedHours = fixedValue 2 totalExpected,
          totalWorkedHours = fixedValue 2 totalWorked,
          leavesTaken = leaves,
          leavesAllowed = 2,
          productivity = fixedValue 2 prod,
          dailyBreakdown = map toDaily employeeData\<rparr>)"

text \<open>\<^verbatim>\<open>GET /month/:year/:month\<close>; route parameters are never empty.\<close>

definition getMonth :: "string \<Rightarrow> string \<Rightarrow> db \<Rightarrow> response" where
  "getMonth y m d =
     (if y = [] \<or> m = [] then
        Failure 400 [(''error'', JStr ''Missing parameters''),
                     (''message'', JStr ''Year and month are required'')]
      else
        (let my = y @ ''-'' @ padStart 2 (CHR ''0'') m;
             attendanceData = findMonth my d
         in if attendanceData = [] then
              Failure 404 [(''error'', JStr ''No data found''),
                           (''message'', JStr (''No attendance data found for '' @ my)),
                           (''monthYear'', JStr my)]
            else
              (let names = uniq (map attendance.employeeName attendanceData)
               in MonthData my (map (monthStatistic attendanceData) names)
                    (length attendanceData) (length names) (parseInt m) (parseInt y))))"

text \<open>
  \<^verbatim>\<open>GET /previous-month/:year/:month\<close>. \<open>showNumber\<close> is the text of an integer in
  a template string, \<^verbatim>\<open>NaN\<close> for \<open>None\<close>.
\<close>

definition showNumber :: "int option \<Rightarrow> string" where
  "showNumber x =
     (case x of
        None \<Rightarrow> ''NaN''
      | Some n \<Rightarrow> (if n < 0 then ''-'' else []) @ showNat (nat \<bar>n\<bar>))"

definition previousStatistic :: "attendance list \<Rightarrow> string \<Rightarrow> summary" where
  "previousStatistic attendanceData n =
     (let employeeData = filter (\<lambda>d. attendance.employeeName d = n) attendanceData;
          totalExpected = foldl (\<lambda>sum d. sum + expectedHours d) 0 employeeData;
          totalWorked = foldl (\<lambda>sum d. sum + workedHours d) 0 employeeData;
          leaves = length (filter (\<lambda>d. isLeave d \<and> \<not> isHoliday d) employeeData);
          prod = (if totalExpected > 0 then (totalWorked / totalExpected) * 100 else 0)
      in \<lparr>summary.employeeName = n,
          totalExpectedHours = fixedValue 2 totalExpected,
          totalWorkedHours = fixedValue 2 totalWorked,
          leavesTaken = leaves,
          leavesAllowed = 2,
          productivity = fixedValue 2 prod\<rparr>)"

definition getPreviousMonth :: "string \<Rightarrow> string \<Rightarrow> db \<Rightarrow> response" where
  "getPreviousMonth y m d =
     (let prevYear0 = parseInt y;
          prevMonth0 = map_option (\<lambda>k. k - 1) (parseInt m);
          prevMonth = (if prevMonth0 = Some 0 then Some 12 else prevMonth0);
          prevYear = (if prevMonth0 = Some 0 then map_option (\<lambda>k. k - 1) prevYear0
                      else prevYear0);
          my = showNumber prevYear @ ''-'' @ padStart 2 (CHR ''0'') (showNumber prevMonth);
          attendanceData = findMonth my d
      in if attendanceData = [] then
           Failure 404 [(''error'', JStr ''No data found''),
                        (''message'', JStr (''No attendance data found for '' @ my))]
         else
           (let names = uniq (map attendance.employeeName attendanceData)
            in PreviousMonth prevYear prevMonth (map (previousStatistic attendanceData) names)))"

text \<open>
  Aggregation pipelines. \<open>matchRange\<close> is the stage
  \<^verbatim>\<open>$match: { date: { $gte: startDate, $lt: endDate } }\<close>; \<open>groupBy\<close> is a \<^verbatim>\<open>$group\<close>
  stage, its groups listed in the order in which their keys first occur.
\<close>

definition matchRange :: "int \<Rightarrow> int \<Rightarrow> db \<Rightarrow> attendance list" where
  "matchRange startDate endDate d =
     filter (\<lambda>a. startDate \<le> date a \<and> date a < endDate) (attendances d)"

definition groupBy :: "('a \<Rightarrow> 'k) \<Rightarrow> 'a list \<Rightarrow> ('k \<times> 'a list) list" where
  "groupBy key xs = map (\<lambda>k. (k, filter (\<lambda>x. key x = k) xs)) (uniq (map key xs))"

text \<open>\<^verbatim>\<open>$sum: { $cond: [{ $eq: ["$isLeave", true] }, 1, 0] }\<close>\<close>

definition leaveDays :: "attendance list \<Rightarrow> nat" where
  "leaveDays rs = length (filter isLeave rs)"

text \<open>
  The time value of \<^verbatim>\<open>new Date(`${y}-01-01`)\<close> for a year written with four digits:
  midnight UTC of the first of January.
\<close>

definition yearStart :: "int \<Rightarrow> int" where
  "yearStart y = MakeDate (MakeDay y 0 1) 0"

text \<open>
  The first two stages of the year query. The first groups by employee and month:
  ((employeeId, employeeName, month), totalWorkedHours, leaveDays, expectedHours).
  The second groups by employee:
  ((employeeId, employeeName), monthlyData, totalWorkedHours, totalLeavesTaken),
  each month of \<open>monthlyData\<close> being (month, workedHours, leavesTaken, expectedHours).
\<close>

definition yearResponse ::
  "int \<Rightarrow> db \<Rightarrow>
   ((nat option \<times> string) \<times> (int \<times> rat \<times> nat \<times> rat) list \<times> rat \<times> nat) list" where
  "yearResponse y d =
     (let matched = matchRange (yearStart y) (yearStart (y + 1)) d;
          byMonth =
            map (\<lambda>(k, rs). (k, sum_list (map workedHours rs), leaveDays rs,
                              sum_list (map expectedHours rs)))
              (groupBy (\<lambda>a. (attendance.employeeId a, attendance.employeeName a,
                               MonthFromTime (date a) + 1)) matched)
      in map (\<lambda>(k, gs).
                (k, map (\<lambda>((i, n, mo), wh, lv, ex). (mo, wh, lv, ex)) gs,
                 sum_list (map (\<lambda>(k', wh, lv, ex). wh) gs),
                 sum_list (map (\<lambda>(k', wh, lv, ex). lv) gs)))
           (groupBy (\<lambda>((i, n, mo), wh, lv, ex). (i, n)) byMonth))"

definition monthNames :: "string list" where
  "monthNames =
     [''January'', ''February'', ''March'', ''April'', ''May'', ''June'',
      ''July'', ''August'', ''September'', ''October'', ''November'', ''December'']"

text \<open>\<^verbatim>\<open>`${monthNames[m - 1]} (${p.toFixed(1)}%)`\<close>\<close>

definition monthLabel :: "int \<times> rat \<Rightarrow> string" where
  "monthLabel mp =
     (if 1 \<le> fst mp \<and> fst mp \<le> 12 then monthNames ! nat (fst mp - 1) else ''undefined'') @
     '' ('' @ toFixed 1 (snd mp) @ ''%)''"

text \<open>
  The \<^verbatim>\<open>forEach\<close> over an employee's months: the state is the best month, the worst
  month (each a month number with its productivity) and the count of months over the
  leave limit.
\<close>

definition monthStep ::
  "(int \<times> rat) \<times> (int \<times> rat) \<times> nat \<Rightarrow> int \<times> rat \<times> nat \<Rightarrow>
   (int \<times> rat) \<times> (int \<times> rat) \<times> nat" where
  "monthStep st mo =
     (case st of (best, worst, exceeded) \<Rightarrow>
      case mo of (mn, p, lv) \<Rightarrow>
        (if p > snd best then (mn, p) else best,
         if p < snd worst \<and> p > 0 then (mn, p) else worst,
         if lv > 2 then exceeded + 1 else exceeded))"

definition monthLoop ::
  "(int \<times> rat \<times> nat) list \<Rightarrow> (int \<times> rat) \<times> (int \<times> rat) \<times> nat" where
  "monthLoop monthlyProductivity = foldl monthStep ((0, 0), (0, 100), 0) monthlyProductivity"

definition yearEmployeeOf ::
  "(nat option \<times> string) \<times> (int \<times> rat \<times> nat \<times> rat) list \<times> rat \<times> nat \<Rightarrow> yearEmployee" where
  "yearEmployeeOf emp =
     (case emp of ((i, n), months, totalWorked, totalLeaves) \<Rightarrow>
        (let monthlyProductivity =
               map (\<lambda>(mo, wh, lv, ex). (mo, if ex > 0 then (wh / ex) * 100 else 0, lv)) months;
             validMonths = filter (\<lambda>(mo, p, lv). p > 0) monthlyProductivity;
             avg = (if length validMonths > 0
                    then foldl (\<lambda>sum (mo, p, lv). sum + p) 0 validMonths /
                         of_nat (length validMonths)
                    else 0)
         in case monthLoop monthlyProductivity of
              (best, worst, exceeded) \<Rightarrow>
                \<lparr>yearEmployee.employeeId = i,
                 yearEmployee.employeeName = n,
                 yearEmployee.totalWorkedHours = totalWorked,
                 totalLeavesTaken = totalLeaves,
                 totalLeavesAllowed = length monthlyProductivity * 2,
                 avgProductivity = avg,
                 avgMonthlyHours = totalWorked / of_nat (length monthlyProductivity),
                 exceededLimitMonths = exceeded,
                 bestMonth = (if snd best > 0 then monthLabel best else ''N/A''),
                 worstMonth = (if snd worst < 100 then monthLabel worst else ''N/A''),
                 monthlyData = monthlyProductivity\<rparr>))"

text \<open>
  \<^verbatim>\<open>GET /year-aggregated/:year\<close>. The route parameter is a year written as a plain
  decimal numeral, modelled as the number it denotes.
\<close>

definition getYearAggregated :: "env \<Rightarrow> int \<Rightarrow> db \<Rightarrow> response" where
  "getYearAggregated e y d =
     (if y < 2000 \<or> y > currentYear e + 1 then Failure 400 [(''error'', JStr ''Invalid year'')]
      else
        (let yr = yearResponse y d
         in if yr = [] then Failure 404 [(''error'', JStr ''No data found for this year'')]
            else
              (let emps = map yearEmployeeOf yr;
                   totalEmployees = length emps;
                   totalHours = foldl (\<lambda>sum emp. sum + yearEmployee.totalWorkedHours emp) 0 emps;
                   totalLeaves = foldl (\<lambda>sum emp. sum + totalLeavesTaken emp) 0 emps;
                   avgProd = foldl (\<lambda>sum emp. sum + avgProductivity emp) 0 emps /
                             of_nat totalEmployees;
                   avgHours = totalHours / of_nat totalEmployees
               in YearAggregated y totalEmployees totalHours totalLeaves avgProd avgHours emps
                    (case emps of [] \<Rightarrow> 0 | emp # _ \<Rightarrow> length (monthlyData emp)))))"

text \<open>
  \<^verbatim>\<open>GET /workforce/:year/:month\<close>, both parameters plain decimal numerals. The range
  runs from \<^verbatim>\<open>new Date(year, month - 1, 1)\<close> to \<^verbatim>\<open>new Date(year, month, 1)\<close>, local
  midnights of the server.
\<close>

definition getWorkforce :: "env \<Rightarrow> int \<Rightarrow> int \<Rightarrow> db \<Rightarrow> response" where
  "getWorkforce e y m d =
     (if y < 2000 \<or> y > currentYear e + 1 then Failure 400 [(''error'', JStr ''Invalid year'')]
      else if m < 1 \<or> m > 12 then Failure 400 [(''error'', JStr ''Invalid month'')]
      else
        (let startDate = utcOfLocal e (MakeDate (MakeDay y (m - 1) 1) 0);
             endDate = utcOfLocal e (MakeDate (MakeDay y m 1) 0);
             perEmployee =
               map (\<lambda>((dt, i, n), rs).
                      (dt, i, n, sum_list (map workedHours rs),
                       list_ex isLeave rs, list_ex isHoliday rs))
                 (groupBy (\<lambda>a. (isoDate (date a), attendance.employeeId a,
                                  attendance.employeeName a))
                    (matchRange startDate endDate d));
             dailyData =
               sort_key fst
                 (map (\<lambda>(dt, gs). (dt, map snd gs)) (groupBy fst perEmployee))
         in Workforce y m dailyData))"

text \<open>\<^verbatim>\<open>GET /employees/productivity/:year\<close>, the parameter a plain decimal numeral.\<close>

definition getEmployeesProductivity :: "env \<Rightarrow> int \<Rightarrow> db \<Rightarrow> response" where
  "getEmployeesProductivity e y d =
     (if y < 2000 \<or> y > currentYear e + 1 then Failure 400 [(''error'', JStr ''Invalid year'')]
      else
        (let productivityData =
               sort_key (\<lambda>(i, n, wh, lv, p). n)
                 (map (\<lambda>((i, n), rs).
                         (let totalWorked = sum_list (map workedHours rs);
                              totalExpected = sum_list (map expectedHours rs)
                          in (i, n, totalWorked, leaveDays rs,
                              if totalExpected > 0 then (totalWorked / totalExpected) * 100
                              else 0)))
                    (groupBy (\<lambda>a. (attendance.employeeId a, attendance.employeeName a))
                       (matchRange (yearStart y) (yearStart (y + 1)) d)))
         in EmployeesProductivity y productivityData))"

section \<open>Strict matching, as the specification words it\<close>



section \<open>The invariant of stored records and the payload of a failure\<close>

text \<open>
  The invariant of stored records: the worked hours have two decimals, the expected
  hours are those of the weekday, and the two flags repeat the status.
\<close>

definition canonical :: "attendance \<Rightarrow> bool" where
  "canonical a =
     (fixedValue 2 (workedHours a) = workedHours a \<and>
      expectedHours a = getExpectedHours (dayOfWeek a) \<and>
      isLeave a = (status a = Leave) \<and>
      isHoliday a = (status a = Holiday))"

text \<open>The numbers among the fields of a failure's payload.\<close>

definition payloadNumbers :: "response \<Rightarrow> rat list" where
  "payloadNumbers r =
     (case r of
        Failure c p \<Rightarrow> concat (map (\<lambda>(k, v). case v of JNum x \<Rightarrow> [x] | JStr s \<Rightarrow> []) p)
      | _ \<Rightarrow> [])"

section \<open>Sample data\<close>

text \<open>
  Concrete inputs to run the definitions on. \<open>sampleEnv\<close> is a server in the time zone
  UTC+05:30 and \<open>westEnv\<close> one in the time zone UTC-05:00; their time parser reads
  exactly two digits, a colon and two digits, as an instant of the day 1970-01-01.
\<close>

fun clockHM :: "cell \<Rightarrow> int option" where
  "clockHM (CStr [h1, h2, c, m1, m2]) =
     (if isDigit h1 \<and> isDigit h2 \<and> c = CHR '':'' \<and> isDigit m1 \<and> isDigit m2 \<and>
         toInt [h1, h2] < 24 \<and> toInt [m1, m2] < 60
      then Some ((toInt [h1, h2] * 60 + toInt [m1, m2]) * 60000) else None)"
| "clockHM _ = None"

definition sampleEnv :: env where
  "sampleEnv =
     \<lparr>localTime = (\<lambda>t. t + 19800000), utcOfLocal = (\<lambda>t. t - 19800000),
      momentHM = clockHM, currentYear = 2024\<rparr>"

definition westEnv :: env where
  "westEnv =
     \<lparr>localTime = (\<lambda>t. t - 18000000), utcOfLocal = (\<lambda>t. t + 18000000),
      momentHM = clockHM, currentYear = 2024\<rparr>"

text \<open>
  Sample rows, requests and stores. \<open>sampleDb\<close> is the store after the upload of
  \<open>mondayRow\<close> for March 2024 into the empty store.
\<close>

definition emptyDb :: db where
  "emptyDb = \<lparr>attendances = [], employees = []\<rparr>"

definition storedDay :: attendance where
  "storedDay =
     \<lparr>employeeName = ''Asha'', date = 1709510400000, inTime = CStr ''09:00'',
      outTime = CStr ''17:30'', workedHours = 17 / 2, isLeave = False, isHoliday = False,
      dayOfWeek = ''Monday'', monthYear = ''2024-03'', expectedHours = 17 / 2,
      status = Present, employeeId = Some 1\<rparr>"

definition sampleDb :: db where
  "sampleDb =
     \<lparr>attendances = [storedDay],
      employees = [\<lparr>name = ''Asha'', leavesPerMonth = 2, eid = 1\<rparr>]\<rparr>"

definition headerRow :: row where
  "headerRow =
     \<lparr>rowNumber = 1, getCell1 = ''Name'', getCell2 = CStr ''Date'', getCell3 = CStr ''In'',
      getCell4 = CStr ''Out''\<rparr>"

definition mondayRow :: row where
  "mondayRow =
     \<lparr>rowNumber = 2, getCell1 = ''Asha'', getCell2 = CStr ''2024-03-04'',
      getCell3 = CStr ''09:00'', getCell4 = CStr ''17:30''\<rparr>"

definition sundayRow :: row where
  "sundayRow =
     \<lparr>rowNumber = 2, getCell1 = ''Asha'', getCell2 = CStr ''2024-03-03'',
      getCell3 = CStr ''09:00'', getCell4 = CStr ''17:30''\<rparr>"

definition undatedRow :: row where
  "undatedRow =
     \<lparr>rowNumber = 2, getCell1 = ''Asha'', getCell2 = CStr ''next Monday'',
      getCell3 = CStr ''09:00'', getCell4 = CStr ''17:30''\<rparr>"

definition marchRequest :: "row list \<Rightarrow> request" where
  "marchRequest rows =
     \<lparr>reqFile = Some (Worksheet rows), month = ''3'', year = ''2024'', override = []\<rparr>"


section \<open>Properties: rounding and worked hours\<close>

lemma fixedValue_grid: "\<exists>n::int. fixedValue 2 x = of_int n / 100"
  unfolding fixedValue_def
  by (cases "x < 0") (auto intro: exI[of _ "- round (- x * 100)"] exI[of _ "round (x * 100)"])






section \<open>Properties: classification of a row\<close>

lemma WeekDay_range: "WeekDay t = 0 \<or> WeekDay t = 1 \<or> WeekDay t = 2 \<or> WeekDay t = 3 \<or> WeekDay t = 4 \<or> WeekDay t = 5 \<or> WeekDay t = 6"
  unfolding WeekDay_def by presburger

lemma formatDddd_Sunday: "(formatDddd t = ''Sunday'') = (WeekDay t = 0)"
  using WeekDay_range [of t] by (auto simp: formatDddd_def dayNames_def)

lemma processRow_SomeD:
  assumes "processRow e my r = Some a"
  obtains p where "parseDate e (getCell2 r) = Some p"
    and "a = \<lparr>employeeName = getCell1 r, date = p,
              inTime = orNull (getCell3 r), outTime = orNull (getCell4 r),
              workedHours = fst (snd (classify e (formatDddd p) (getCell3 r) (getCell4 r))),
              isLeave = fst (classify e (formatDddd p) (getCell3 r) (getCell4 r)),
              isHoliday = (formatDddd p = ''Sunday''), dayOfWeek = formatDddd p,
              monthYear = my, expectedHours = getExpectedHours (formatDddd p),
              status = snd (snd (classify e (formatDddd p) (getCell3 r) (getCell4 r))),
              employeeId = None\<rparr>"
    and "rowNumber r \<noteq> 1" and "getCell1 r \<noteq> []" and "truthy (getCell2 r)"
  using assms unfolding processRow_def
  by (auto split: if_splits option.splits prod.splits simp: Let_def)

lemma sunday_row: "processRow sampleEnv ''2024-03'' sundayRow =
   Some \<lparr>employeeName = ''Asha'', date = 1709424000000, inTime = CStr ''09:00'',
      outTime = CStr ''17:30'', workedHours = 0, isLeave = False, isHoliday = True,
      dayOfWeek = ''Sunday'', monthYear = ''2024-03'', expectedHours = 0,
      status = Holiday, employeeId = None\<rparr>"
  by code_simp

text \<open>
  C2. A row whose normalized day is a Sunday is stored with status Holiday, expected hours
  0 and worked hours 0, whatever its punches are.
\<close>

theorem sunday_is_holiday:
  "processRow e my r = Some a \<Longrightarrow> WeekDay (date a) = 0 \<Longrightarrow>
   status a = Holiday \<and> expectedHours a = 0 \<and> workedHours a = 0 \<and> isHoliday a \<and> \<not> isLeave a"
  by (erule processRow_SomeD)
     (simp add: formatDddd_Sunday classify_def getExpectedHours_def workdayHours_def)

theorem sunday_is_holiday_witness:
  "processRow sampleEnv ''2024-03'' sundayRow =
     Some \<lparr>employeeName = ''Asha'', date = 1709424000000, inTime = CStr ''09:00'',
        outTime = CStr ''17:30'', workedHours = 0, isLeave = False, isHoliday = True,
        dayOfWeek = ''Sunday'', monthYear = ''2024-03'', expectedHours = 0,
        status = Holiday, employeeId = None\<rparr> \<and>
   WeekDay 1709424000000 = 0"
proof -
  have w: "WeekDay 1709424000000 = 0"
    by (simp add: WeekDay_def Day_def msPerDay_def)
  from sunday_is_holiday [OF sunday_row] w sunday_row show ?thesis by simp
qed

section \<open>Properties: the upload controller\<close>

lemma set_eachRow: "set (eachRow e my rows) = {a. \<exists>r\<in>set rows. processRow e my r = Some a}"
  unfolding eachRow_def List.map_filter_def by force

lemma findOrCreate_attendances: "findOrCreate n d = (x, d') \<Longrightarrow> attendances d' = attendances d"
  unfolding findOrCreate_def by (auto split: option.splits simp: Let_def)

lemma assignEmployees_keeps:
  "assignEmployees ns (xs, d) = (ys, d') \<Longrightarrow>
   attendances d' = attendances d \<and>
   map (\<lambda>r. r\<lparr>employeeId := None\<rparr>) ys = map (\<lambda>r. r\<lparr>employeeId := None\<rparr>) xs"
proof (induction ns arbitrary: xs d)
  case Nil
  then show ?case by simp
next
  case (Cons n ns)
  obtain x d1 where f: "findOrCreate n d = (x, d1)" by (cases "findOrCreate n d")
  let ?xs = "map (\<lambda>r. if attendance.employeeName r = n then r\<lparr>employeeId := Some (eid x)\<rparr> else r) xs"
  from Cons.prems f have "assignEmployees ns (?xs, d1) = (ys, d')" by simp
  from Cons.IH [OF this] findOrCreate_attendances [OF f]
  show ?case by (simp add: comp_def if_distrib cong: if_cong)
qed

lemma assignEmployees_status:
  assumes "assignEmployees ns (xs, d) = (ys, d')" "a \<in> set ys"
  shows "\<exists>b\<in>set xs. a\<lparr>employeeId := None\<rparr> = b\<lparr>employeeId := None\<rparr>"
proof -
  from assignEmployees_keeps [OF assms(1)]
  have "map (\<lambda>r. r\<lparr>employeeId := None\<rparr>) ys = map (\<lambda>r. r\<lparr>employeeId := None\<rparr>) xs" by simp
  then have "set (map (\<lambda>r. r\<lparr>employeeId := None\<rparr>) ys) = set (map (\<lambda>r. r\<lparr>employeeId := None\<rparr>) xs)"
    by simp
  with assms(2) show ?thesis by auto
qed

lemma uploadAttendance_cases:
  assumes u: "uploadAttendance e req d = (resp, d')"
  obtains (failed) c p where "resp = Failure c p" "d' = d"
  | (stored) rows records d1 where
      "reqFile req = Some (Worksheet rows)"
      "assignEmployees
         (uniq (map attendance.employeeName
            (eachRow e (year req @ ''-'' @ padStart 2 (CHR ''0'') (month req)) rows)))
         (eachRow e (year req @ ''-'' @ padStart 2 (CHR ''0'') (month req)) rows, d) = (records, d1)"
      "d' = insertMany records
              (if findOne (year req @ ''-'' @ padStart 2 (CHR ''0'') (month req)) d \<noteq> None \<and>
                  override req = ''true''
               then deleteMany (year req @ ''-'' @ padStart 2 (CHR ''0'') (month req)) d1 else d1)"
proof (cases "reqFile req")
  case None
  with u have "resp = Failure 400 [(''error'', JStr ''No file provided''),
                        (''message'', JStr ''Please select an Excel file to upload'')]" "d' = d"
    by (simp_all add: uploadAttendance_def)
  then show ?thesis by (rule failed)
next
  case (Some f)
  define my where "my = year req @ ''-'' @ padStart 2 (CHR ''0'') (month req)"
  note u' = u [unfolded uploadAttendance_def Let_def, folded my_def]
  show ?thesis
  proof (cases "month req = [] \<or> year req = []")
    case True
    with u' Some have "resp = Failure 400 [(''error'', JStr ''Missing parameters''),
                          (''message'', JStr ''Month and year are required'')]" "d' = d"
      by simp_all
    then show ?thesis by (rule failed)
  next
    case nonempty: False
    show ?thesis
    proof (cases "case parseInt (month req) of None \<Rightarrow> True | Some monthNum \<Rightarrow> monthNum < 1 \<or> monthNum > 12")
      case True
      with u' Some nonempty have "resp = Failure 400 [(''error'', JStr ''Invalid month''),
                          (''message'', JStr ''Month must be between 1 and 12'')]" "d' = d"
        by simp_all
      then show ?thesis by (rule failed)
    next
      case valid: False
      show ?thesis
      proof (cases "findOne my d \<noteq> None \<and> override req \<noteq> ''true''")
        case True
        with u' Some nonempty valid have "resp = Failure 409
                     [(''error'', JStr ''Data already exists''),
                      (''message'', JStr (''Attendance data for '' @ my @
                          '' already exists. Use override=true to replace.'')),
                      (''monthYear'', JStr my)]" "d' = d"
          by simp_all
        then show ?thesis by (rule failed)
      next
        case fresh: False
        show ?thesis
        proof (cases f)
          case (Unreadable msg)
          with u' Some nonempty valid fresh have "resp = Failure 500 [(''error'', JStr ''Upload failed''),
                                  (''message'', JStr msg)]" "d' = d"
            by auto
          then show ?thesis by (rule failed)
        next
          case (Worksheet rows)
          show ?thesis
          proof (cases "eachRow e my rows = []")
            case True
            with u' Some nonempty valid fresh Worksheet have "resp = Failure 400
                             [(''error'', JStr ''No valid data''),
                              (''message'',
                               JStr ''Excel file does not contain valid attendance data'')]" "d' = d"
              by auto
            then show ?thesis by (rule failed)
          next
            case False
            obtain records d1 where a: "assignEmployees (uniq (map attendance.employeeName (eachRow e my rows))) (eachRow e my rows, d) = (records, d1)"
              by (cases "assignEmployees (uniq (map attendance.employeeName (eachRow e my rows))) (eachRow e my rows, d)")
            with u' Some nonempty valid fresh Worksheet False
            have "d' = insertMany records (if findOne my d \<noteq> None \<and> override req = ''true'' then deleteMany my d1 else d1)"
              by auto
            with a Some Worksheet show ?thesis unfolding my_def by (intro stored) simp_all
          qed
        qed
      qed
    qed
  qed
qed

lemma findOne_None: "(findOne my d = None) = (\<forall>a\<in>set (attendances d). monthYear a \<noteq> my)"
  unfolding findOne_def by (auto simp: find_None_iff)

lemma parseInt_3: "parseInt ''3'' = Some 3"
  by code_simp

lemma sampleDb_uploaded:
  "snd (uploadAttendance sampleEnv (marchRequest [headerRow, mondayRow]) emptyDb) = sampleDb"
  by code_simp

lemma undated_rows: "eachRow sampleEnv ''2024-03'' [headerRow, undatedRow] = []"
  by code_simp

text \<open>
  C10. Classification never yields the status Weekend, and every record that an upload
  adds to the store has status Present, Leave or Holiday.
\<close>

theorem status_never_weekend:
  "snd (snd (classify e dow inT outT)) \<noteq> Weekend \<and>
   (\<forall>resp d' a. uploadAttendance e req d = (resp, d') \<and> a \<in> set (attendances d') \<and>
       a \<notin> set (attendances d) \<longrightarrow>
       status a = Present \<or> status a = Leave \<or> status a = Holiday)"
proof (intro conjI allI impI)
  show "snd (snd (classify e dow inT outT)) \<noteq> Weekend"
    by (simp add: classify_def Let_def)
next
  fix resp d' a
  assume h: "uploadAttendance e req d = (resp, d') \<and> a \<in> set (attendances d') \<and> a \<notin> set (attendances d)"
  then have u: "uploadAttendance e req d = (resp, d')" by simp
  from u show "status a = Present \<or> status a = Leave \<or> status a = Holiday"
  proof (cases rule: uploadAttendance_cases)
    case (failed c p)
    with h show ?thesis by simp
  next
    case (stored rows records d1)
    let ?my = "year req @ ''-'' @ padStart 2 (CHR ''0'') (month req)"
    from assignEmployees_keeps [OF stored(2)] have k: "attendances d1 = attendances d" by simp
    from h stored(3) k have "a \<in> set records"
      by (auto simp: insertMany_def deleteMany_def split: if_splits)
    from assignEmployees_status [OF stored(2) this]
    obtain b where b: "b \<in> set (eachRow e ?my rows)" "a\<lparr>employeeId := None\<rparr> = b\<lparr>employeeId := None\<rparr>"
      by blast
    from b(1) obtain r where "processRow e ?my r = Some b" by (auto simp: set_eachRow)
    then have "status b = Present \<or> status b = Leave \<or> status b = Holiday"
      by (elim processRow_SomeD) (simp add: classify_def Let_def)
    moreover from b(2) have "status (a\<lparr>employeeId := None\<rparr>) = status (b\<lparr>employeeId := None\<rparr>)"
      by simp
    then have "status a = status b" by simp
    ultimately show ?thesis by simp
  qed
qed

lemma upload_sunday:
  "uploadAttendance sampleEnv (marchRequest [headerRow, sundayRow]) emptyDb =
     (Uploaded ''File uploaded successfully for 2024-03'' 1 1 ''2024-03''
        [\<lparr>summary.employeeName = ''Asha'', totalExpectedHours = 0, totalWorkedHours = 0,
          leavesTaken = 0, leavesAllowed = 2, productivity = 0,
          dailyBreakdown =
            [Daily ''2024-03-03'' ''Sunday'' 0 False True 0 (CStr ''09:00'') (CStr ''17:30'')
               Holiday]\<rparr>],
      \<lparr>attendances =
         [\<lparr>employeeName = ''Asha'', date = 1709424000000, inTime = CStr ''09:00'',
           outTime = CStr ''17:30'', workedHours = 0, isLeave = False, isHoliday = True,
           dayOfWeek = ''Sunday'', monthYear = ''2024-03'', expectedHours = 0,
           status = Holiday, employeeId = Some 1\<rparr>],
       employees = [\<lparr>name = ''Asha'', leavesPerMonth = 2, eid = 1\<rparr>]\<rparr>)"
  by code_simp

theorem status_never_weekend_witness:
  "status \<lparr>employeeName = ''Asha'', date = 1709424000000, inTime = CStr ''09:00'',
           outTime = CStr ''17:30'', workedHours = 0, isLeave = False, isHoliday = True,
           dayOfWeek = ''Sunday'', monthYear = ''2024-03'', expectedHours = 0,
           status = Holiday, employeeId = Some 1\<rparr> \<noteq> Weekend \<and>
   attendances (snd (uploadAttendance sampleEnv (marchRequest [headerRow, sundayRow]) emptyDb)) =
     [\<lparr>employeeName = ''Asha'', date = 1709424000000, inTime = CStr ''09:00'',
           outTime = CStr ''17:30'', workedHours = 0, isLeave = False, isHoliday = True,
           dayOfWeek = ''Sunday'', monthYear = ''2024-03'', expectedHours = 0,
           status = Holiday, employeeId = Some 1\<rparr>]"
  using status_never_weekend [of sampleEnv "''Sunday''" CNull CNull
          "marchRequest [headerRow, sundayRow]" emptyDb] upload_sunday
  by (simp add: emptyDb_def)

text \<open>
  C4. An upload whose month label already has stored records, without override, fails
  with status 409 and the error "Data already exists", the payload carries the month
  label, and the store is returned unchanged.
\<close>

theorem duplicate_month_rejected:
  assumes "reqFile req \<noteq> None" "month req \<noteq> []" "year req \<noteq> []"
    and "parseInt (month req) = Some k" "1 \<le> k" "k \<le> 12"
    and "\<exists>a\<in>set (attendances d).
           monthYear a = year req @ ''-'' @ padStart 2 (CHR ''0'') (month req)"
    and "override req \<noteq> ''true''"
  shows "uploadAttendance e req d =
           (Failure 409
              [(''error'', JStr ''Data already exists''),
               (''message'', JStr (''Attendance data for '' @
                   (year req @ ''-'' @ padStart 2 (CHR ''0'') (month req)) @
                   '' already exists. Use override=true to replace.'')),
               (''monthYear'', JStr (year req @ ''-'' @ padStart 2 (CHR ''0'') (month req)))],
            d)"
proof -
  define my where "my = year req @ ''-'' @ padStart 2 (CHR ''0'') (month req)"
  from assms(7) have "findOne my d \<noteq> None" by (simp add: findOne_None my_def)
  with assms(1-6,8) show ?thesis
    unfolding uploadAttendance_def Let_def my_def [symmetric] by auto
qed

theorem duplicate_month_rejected_witness:
  "uploadAttendance sampleEnv (marchRequest [headerRow, sundayRow]) sampleDb =
     (Failure 409
        [(''error'', JStr ''Data already exists''),
         (''message'', JStr ''Attendance data for 2024-03 already exists. Use override=true to replace.''),
         (''monthYear'', JStr ''2024-03'')],
      sampleDb)"
  using duplicate_month_rejected [of "marchRequest [headerRow, sundayRow]" 3 sampleDb sampleEnv]
  by (simp add: marchRequest_def parseInt_3 sampleDb_def storedDay_def padStart_def)

text \<open>
  C8, as the code has it. An upload whose rows are all skipped fails with status 400, the
  error "No valid data" and a fixed message, and the store is returned unchanged. The
  payload has these two text fields only.
\<close>

theorem empty_batch_rejected:
  assumes "reqFile req = Some (Worksheet rows)" "month req \<noteq> []" "year req \<noteq> []"
    and "parseInt (month req) = Some k" "1 \<le> k" "k \<le> 12"
    and "findOne (year req @ ''-'' @ padStart 2 (CHR ''0'') (month req)) d = None \<or>
         override req = ''true''"
    and "eachRow e (year req @ ''-'' @ padStart 2 (CHR ''0'') (month req)) rows = []"
  shows "uploadAttendance e req d =
           (Failure 400
              [(''error'', JStr ''No valid data''),
               (''message'', JStr ''Excel file does not contain valid attendance data'')],
            d)"
proof -
  define my where "my = year req @ ''-'' @ padStart 2 (CHR ''0'') (month req)"
  from assms show ?thesis
    unfolding uploadAttendance_def Let_def my_def [symmetric] by auto
qed

theorem empty_batch_rejected_witness:
  "uploadAttendance sampleEnv ((marchRequest [headerRow, undatedRow])\<lparr>override := ''true''\<rparr>)
     sampleDb =
     (Failure 400
        [(''error'', JStr ''No valid data''),
         (''message'', JStr ''Excel file does not contain valid attendance data'')],
      sampleDb)"
  using empty_batch_rejected [of "(marchRequest [headerRow, undatedRow])\<lparr>override := ''true''\<rparr>"
          "[headerRow, undatedRow]" 3 sampleDb sampleEnv] undated_rows
  by (simp add: marchRequest_def parseInt_3 padStart_def)

text \<open>
  C8 as stated asks for the numbers of rows seen and accepted in the payload: here two
  rows are seen and none accepted, and the payload holds no number.
\<close>

theorem empty_batch_counts_counterexample:
  "uploadAttendance sampleEnv (marchRequest [headerRow, undatedRow]) emptyDb =
     (Failure 400
        [(''error'', JStr ''No valid data''),
         (''message'', JStr ''Excel file does not contain valid attendance data'')],
      emptyDb) \<and>
   payloadNumbers (fst (uploadAttendance sampleEnv (marchRequest [headerRow, undatedRow]) emptyDb)) = []"
proof -
  have "uploadAttendance sampleEnv (marchRequest [headerRow, undatedRow]) emptyDb =
     (Failure 400
        [(''error'', JStr ''No valid data''),
         (''message'', JStr ''Excel file does not contain valid attendance data'')],
      emptyDb)"
    using undated_rows
    by (simp add: uploadAttendance_def marchRequest_def parseInt_3 padStart_def findOne_def emptyDb_def)
  then show ?thesis by (simp add: payloadNumbers_def)
qed

section \<open>Properties: stored records and the monthly statistic\<close>


lemma fixedValue_of_grid: "fixedValue 2 (of_int n / 100) = of_int n / 100"
proof -
  have a: "- (rat_of_int n / 100) * 10 ^ 2 = of_int (- n)" by simp
  have b: "rat_of_int n / 100 * 10 ^ 2 = of_int n" by simp
  show ?thesis
    unfolding fixedValue_def a b round_of_int by simp
qed















lemma calculateWorkedHours_grid:
  "fixedValue 2 (calculateWorkedHours e inT outT) = calculateWorkedHours e inT outT"
proof -
  have z: "fixedValue 2 0 = 0" using fixedValue_of_grid [of 0] by simp
  have m: "fixedValue 2 (max 0 (fixedValue 2 h)) = max 0 (fixedValue 2 h)" for h
  proof -
    obtain k :: int where "fixedValue 2 h = of_int k / 100" using fixedValue_grid by blast
    then have "max 0 (fixedValue 2 h) = of_int (max 0 k) / 100" by (simp add: max_def)
    then show ?thesis by (simp only: fixedValue_of_grid)
  qed
  show ?thesis
    unfolding calculateWorkedHours_def Let_def
    by (simp add: z m split: option.splits)
qed

lemma processRow_canonical: "processRow e my r = Some a \<Longrightarrow> canonical a"
proof (erule processRow_SomeD)
  fix p
  assume "a = \<lparr>employeeName = getCell1 r, date = p,
              inTime = orNull (getCell3 r), outTime = orNull (getCell4 r),
              workedHours = fst (snd (classify e (formatDddd p) (getCell3 r) (getCell4 r))),
              isLeave = fst (classify e (formatDddd p) (getCell3 r) (getCell4 r)),
              isHoliday = (formatDddd p = ''Sunday''), dayOfWeek = formatDddd p,
              monthYear = my, expectedHours = getExpectedHours (formatDddd p),
              status = snd (snd (classify e (formatDddd p) (getCell3 r) (getCell4 r))),
              employeeId = None\<rparr>"
  moreover have "fixedValue 2 0 = 0" using fixedValue_of_grid [of 0] by simp
  ultimately show "canonical a"
    by (simp add: canonical_def classify_def Let_def calculateWorkedHours_grid)
qed

lemma canonical_employeeId: "canonical (a\<lparr>employeeId := x\<rparr>) = canonical a"
  by (simp add: canonical_def)

lemma assignEmployees_canonical:
  assumes "assignEmployees ns (xs, d) = (ys, d')" "\<forall>a\<in>set xs. canonical a"
  shows "\<forall>a\<in>set ys. canonical a"
proof
  fix a assume "a \<in> set ys"
  from assignEmployees_status [OF assms(1) this]
  obtain b where b: "b \<in> set xs" "a\<lparr>employeeId := None\<rparr> = b\<lparr>employeeId := None\<rparr>" by blast
  from b(1) assms(2) have "canonical (b\<lparr>employeeId := None\<rparr>)" by (simp add: canonical_employeeId)
  with b(2) have "canonical (a\<lparr>employeeId := None\<rparr>)" by simp
  then show "canonical a" by (simp only: canonical_employeeId)
qed

lemma uploadAttendance_canonical:
  assumes "uploadAttendance e req d = (resp, d')" "\<forall>a\<in>set (attendances d). canonical a"
  shows "\<forall>a\<in>set (attendances d'). canonical a"
  using assms(1)
proof (cases rule: uploadAttendance_cases)
  case (failed c p)
  with assms(2) show ?thesis by simp
next
  case (stored rows records d1)
  let ?my = "year req @ ''-'' @ padStart 2 (CHR ''0'') (month req)"
  have "\<forall>a\<in>set (eachRow e ?my rows). canonical a"
    by (auto simp: set_eachRow processRow_canonical)
  from assignEmployees_canonical [OF stored(2) this] have r: "\<forall>a\<in>set records. canonical a" .
  from assignEmployees_keeps [OF stored(2)] have "attendances d1 = attendances d" by simp
  with assms(2) r stored(3) show ?thesis
    by (auto simp: insertMany_def deleteMany_def)
qed





section \<open>Properties: calendar arithmetic\<close>

text \<open>
  The year computed by cycles is the year of the standard: the largest one that starts
  no later than the day. The day of the month lies within the month.
\<close>

lemma DayFromYear_cycle:
  fixes a b c e :: int
  assumes "0 \<le> b" "b \<le> 3" "0 \<le> c" "c \<le> 24" "0 \<le> e" "e \<le> 3"
  shows "DayFromYear (1601 + 400 * a + 100 * b + 4 * c + e) =
           146097 * a + 36524 * b + 1461 * c + 365 * e - 134774"
proof -
  have 1: "(1601 + 400 * a + 100 * b + 4 * c + e - 1969) div 4 = 100 * a + 25 * b + c - 92"
    using assms by (intro int_div_pos_eq [where r = e]) simp_all
  have 2: "(1601 + 400 * a + 100 * b + 4 * c + e - 1901) div 100 = 4 * a + b - 3"
    using assms by (intro int_div_pos_eq [where r = "4 * c + e"]) simp_all
  have 3: "(1601 + 400 * a + 100 * b + 4 * c + e - 1601) div 400 = a"
    using assms by (intro int_div_pos_eq [where r = "100 * b + 4 * c + e"]) simp_all
  show ?thesis unfolding DayFromYear_def 1 2 3 by simp
qed

lemma div_succ:
  fixes x k :: int
  assumes "0 < k"
  shows "(x + 1) div k = x div k + (if (x + 1) mod k = 0 then 1 else 0)"
proof (cases "x mod k = k - 1")
  case True
  have "k * (x div k) + x mod k = x" by simp
  with True have "k * (x div k) + (k - 1) = x" by simp
  then have "x + 1 = k * (x div k + 1) + 0" by (simp add: algebra_simps)
  from int_div_pos_eq [OF this] int_mod_pos_eq [OF this] assms show ?thesis by simp
next
  case False
  have b: "0 \<le> x mod k" "x mod k < k" using assms by simp_all
  have "k * (x div k) + x mod k = x" by simp
  then have "x + 1 = k * (x div k) + (x mod k + 1)" by simp
  from int_div_pos_eq [OF this] int_mod_pos_eq [OF this] b False show ?thesis by simp
qed

lemma DaysInYear_step: "DayFromYear (y + 1) = DayFromYear y + DaysInYear y"
proof -
  have m4: "(y - 1968) mod 4 = y mod 4"
    using mod_diff_right_eq [of y 1968 4] by simp
  have m100: "(y - 1900) mod 100 = y mod 100"
    using mod_diff_right_eq [of y 1900 100] by simp
  have m400: "(y - 1600) mod 400 = y mod 400"
    using mod_diff_right_eq [of y 1600 400] by simp
  have a: "(y + 1 - 1969) div 4 = (y - 1969) div 4 + (if y mod 4 = 0 then 1 else 0)"
    using div_succ [of 4 "y - 1969"] m4 by (simp add: algebra_simps)
  have b: "(y + 1 - 1901) div 100 = (y - 1901) div 100 + (if y mod 100 = 0 then 1 else 0)"
    using div_succ [of 100 "y - 1901"] m100 by (simp add: algebra_simps)
  have c: "(y + 1 - 1601) div 400 = (y - 1601) div 400 + (if y mod 400 = 0 then 1 else 0)"
    using div_succ [of 400 "y - 1601"] m400 by (simp add: algebra_simps)
  have d1: "y mod 400 = 0 \<Longrightarrow> y mod 100 = 0"
    using mod_mod_cancel [of 100 400 y] by simp
  have d2: "y mod 100 = 0 \<Longrightarrow> y mod 4 = 0"
    using mod_mod_cancel [of 4 100 y] by simp
  show ?thesis
    unfolding DayFromYear_def DaysInYear_def isLeapYear_def a b c using d1 d2 by auto
qed

lemma YearFromTime_spec:
  "DayFromYear (YearFromTime t) \<le> Day t \<and> Day t < DayFromYear (YearFromTime t + 1)"
proof -
  define n where "n = Day t + 134774"
  define a where "a = n div 146097"
  define r400 where "r400 = n mod 146097"
  define q where "q = r400 div 36524"
  define b where "b = min q 3"
  define r100 where "r100 = r400 - b * 36524"
  define c where "c = r100 div 1461"
  define r4 where "r4 = r100 mod 1461"
  define q' where "q' = r4 div 365"
  define e where "e = min q' 3"
  define r1 where "r1 = r4 - 365 * e"
  have y: "YearFromTime t = 1601 + 400 * a + 100 * b + 4 * c + e"
    unfolding YearFromTime_def Let_def a_def b_def c_def e_def q'_def r4_def r100_def b_def
      q_def r400_def n_def by simp
  have n: "n = 146097 * a + r400" unfolding a_def r400_def by simp
  have r400: "0 \<le> r400" "r400 < 146097" unfolding r400_def by simp_all
  have q: "r400 = 36524 * q + r400 mod 36524" unfolding q_def by simp
  have qm: "0 \<le> r400 mod 36524" "r400 mod 36524 < 36524" by simp_all
  have q0: "0 \<le> q" unfolding q_def using r400(1) by (simp add: pos_imp_zdiv_nonneg_iff)
  have b: "0 \<le> b" "b \<le> 3" unfolding b_def using q0 by simp_all
  have r100: "0 \<le> r100" "r100 \<le> 36524" "b < 3 \<longrightarrow> r100 < 36524"
    unfolding r100_def b_def using q qm q0 r400 by (auto simp: min_def)
  have c': "r100 = 1461 * c + r4" unfolding c_def r4_def by simp
  have r4: "0 \<le> r4" "r4 < 1461" unfolding r4_def by simp_all
  have c: "0 \<le> c" "c \<le> 24" using c' r4 r100 by auto
  have q'': "r4 = 365 * q' + r4 mod 365" unfolding q'_def by simp
  have qm': "0 \<le> r4 mod 365" "r4 mod 365 < 365" by simp_all
  have q0': "0 \<le> q'" unfolding q'_def using r4(1) by (simp add: pos_imp_zdiv_nonneg_iff)
  have e: "0 \<le> e" "e \<le> 3" unfolding e_def using q0' by simp_all
  have r1: "0 \<le> r1" "r1 \<le> 365" "r1 = 365 \<longrightarrow> e = 3 \<and> r4 = 1460"
    unfolding r1_def e_def using q'' qm' q0' r4 by (auto simp: min_def)
  have d: "DayFromYear (YearFromTime t) = n - r1 - 134774"
    unfolding y DayFromYear_cycle [OF b c e] n r100_def r1_def
    using c' r100_def by simp
  have lo: "DayFromYear (YearFromTime t) \<le> Day t"
    unfolding d n_def using r1(1) by simp
  have hi: "Day t < DayFromYear (YearFromTime t + 1)"
  proof (cases "r1 = 365")
    case False
    with r1 have "r1 \<le> 364" by simp
    then show ?thesis
      unfolding DaysInYear_step d n_def DaysInYear_def by simp
  next
    case True
    with r1 have e3: "e = 3" and r4v: "r4 = 1460" by simp_all
    have leap: "isLeapYear (YearFromTime t)"
    proof (cases "c = 24")
      case True
      with c' r4v have "r100 = 36524" by simp
      with r100(3) b have "b = 3" by auto
      with True e3 have "YearFromTime t = 400 * (a + 5) + 0" unfolding y by simp
      from int_mod_pos_eq [OF this] show ?thesis unfolding isLeapYear_def by simp
    next
      case False
      with c have c23: "c \<le> 23" by simp
      have "YearFromTime t = 4 * (401 + 100 * a + 25 * b + c) + 0" unfolding y e3 by simp
      from int_mod_pos_eq [OF this] have m4: "YearFromTime t mod 4 = 0" by simp
      have "YearFromTime t = 100 * (16 + 4 * a + b) + (4 * c + 4)" unfolding y e3 by simp
      from int_mod_pos_eq [OF this] c c23 have "YearFromTime t mod 100 = 4 * c + 4" by simp
      with c m4 show ?thesis unfolding isLeapYear_def by simp
    qed
    then show ?thesis
      unfolding DaysInYear_step d n_def DaysInYear_def using True by simp
  qed
  from lo hi show ?thesis ..
qed

lemma DayWithinYear_range: "0 \<le> DayWithinYear t \<and> DayWithinYear t < DaysInYear (YearFromTime t)"
  using YearFromTime_spec [of t] unfolding DayWithinYear_def DaysInYear_step by simp

lemma DateFromTime_range:
  "1 \<le> DateFromTime t \<and> DateFromTime t \<le> daysInMonth (YearFromTime t) (MonthFromTime t)"
proof -
  define d where "d = DayWithinYear t"
  define l where "l = InLeapYear t"
  from DayWithinYear_range [of t]
  have r: "0 \<le> d" "d < 365 + l"
    unfolding DaysInYear_def InLeapYear_def d_def l_def by (simp_all split: if_splits)
  have l01: "l = 0 \<or> l = 1" unfolding l_def InLeapYear_def by simp
  have dm: "daysInMonth (YearFromTime t) m =
        (if m = 1 then 28 + l else 31 - ((m mod 7) mod 2))" if "0 \<le> m" "m \<le> 11" for m
    using that unfolding daysInMonth_def Let_def InLeapYear_def l_def by simp
  have mft: "MonthFromTime t =
     (if d < 31 then 0
         else if d < 59 + l then 1
         else if d < 90 + l then 2
         else if d < 120 + l then 3
         else if d < 151 + l then 4
         else if d < 181 + l then 5
         else if d < 212 + l then 6
         else if d < 243 + l then 7
         else if d < 273 + l then 8
         else if d < 304 + l then 9
         else if d < 334 + l then 10
         else 11)"
    unfolding MonthFromTime_def Let_def d_def l_def ..
  have dft: "DateFromTime t = d - monthStart (MonthFromTime t) l + 1"
    unfolding DateFromTime_def d_def l_def ..
  consider (m0) "d < 31"
    | (m1) "31 \<le> d" "d < 59 + l"
    | (m2) "59 + l \<le> d" "d < 90 + l"
    | (m3) "90 + l \<le> d" "d < 120 + l"
    | (m4) "120 + l \<le> d" "d < 151 + l"
    | (m5) "151 + l \<le> d" "d < 181 + l"
    | (m6) "181 + l \<le> d" "d < 212 + l"
    | (m7) "212 + l \<le> d" "d < 243 + l"
    | (m8) "243 + l \<le> d" "d < 273 + l"
    | (m9) "273 + l \<le> d" "d < 304 + l"
    | (m10) "304 + l \<le> d" "d < 334 + l"
    | (m11) "334 + l \<le> d"
    by linarith
  then show ?thesis
  proof cases
    case m0
    with l01 have m: "MonthFromTime t = 0" unfolding mft by auto
    from m0 r l01 show ?thesis unfolding dft m dm [of 0, simplified] monthStart_def by auto
  next
    case m1
    with l01 have m: "MonthFromTime t = 1" unfolding mft by auto
    from m1 r l01 show ?thesis unfolding dft m dm [of 1, simplified] monthStart_def by auto
  next
    case m2
    with l01 have m: "MonthFromTime t = 2" unfolding mft by auto
    from m2 r l01 show ?thesis unfolding dft m dm [of 2, simplified] monthStart_def by auto
  next
    case m3
    with l01 have m: "MonthFromTime t = 3" unfolding mft by auto
    from m3 r l01 show ?thesis unfolding dft m dm [of 3, simplified] monthStart_def by auto
  next
    case m4
    with l01 have m: "MonthFromTime t = 4" unfolding mft by auto
    from m4 r l01 show ?thesis unfolding dft m dm [of 4, simplified] monthStart_def by auto
  next
    case m5
    with l01 have m: "MonthFromTime t = 5" unfolding mft by auto
    from m5 r l01 show ?thesis unfolding dft m dm [of 5, simplified] monthStart_def by auto
  next
    case m6
    with l01 have m: "MonthFromTime t = 6" unfolding mft by auto
    from m6 r l01 show ?thesis unfolding dft m dm [of 6, simplified] monthStart_def by auto
  next
    case m7
    with l01 have m: "MonthFromTime t = 7" unfolding mft by auto
    from m7 r l01 show ?thesis unfolding dft m dm [of 7, simplified] monthStart_def by auto
  next
    case m8
    with l01 have m: "MonthFromTime t = 8" unfolding mft by auto
    from m8 r l01 show ?thesis unfolding dft m dm [of 8, simplified] monthStart_def by auto
  next
    case m9
    with l01 have m: "MonthFromTime t = 9" unfolding mft by auto
    from m9 r l01 show ?thesis unfolding dft m dm [of 9, simplified] monthStart_def by auto
  next
    case m10
    with l01 have m: "MonthFromTime t = 10" unfolding mft by auto
    from m10 r l01 show ?thesis unfolding dft m dm [of 10, simplified] monthStart_def by auto
  next
    case m11
    with l01 have m: "MonthFromTime t = 11" unfolding mft by auto
    from m11 r l01 show ?thesis unfolding dft m dm [of 11, simplified] monthStart_def by auto
  qed
qed

lemma DaysInYear_pos: "0 < DaysInYear y"
  by (simp add: DaysInYear_def)

lemma DayFromYear_mono: "y \<le> y' \<Longrightarrow> DayFromYear y \<le> DayFromYear y'"
proof (induction y' rule: int_ge_induct)
  case base
  show ?case by simp
next
  case (step i)
  from DaysInYear_pos [of i] have "DayFromYear i \<le> DayFromYear (i + 1)"
    unfolding DaysInYear_step by simp
  with step show ?case by simp
qed

lemma YearFromTime_unique:
  assumes "DayFromYear y \<le> Day t" "Day t < DayFromYear (y + 1)"
  shows "YearFromTime t = y"
proof (rule ccontr)
  assume n: "YearFromTime t \<noteq> y"
  note s = YearFromTime_spec [of t]
  show False
  proof (cases "YearFromTime t < y")
    case True
    then have "DayFromYear (YearFromTime t + 1) \<le> DayFromYear y"
      by (intro DayFromYear_mono) simp
    with s assms show False by simp
  next
    case False
    with n have "DayFromYear (y + 1) \<le> DayFromYear (YearFromTime t)"
      by (intro DayFromYear_mono) simp
    with s assms show False by simp
  qed
qed

text \<open>
  The time value that \<open>MakeDay\<close> and \<open>MakeDate\<close> build from a year, a month and a day of
  that month has these three as its fields.
\<close>

lemma fields_of_MakeDay:
  assumes "0 \<le> m" "m \<le> 11" "1 \<le> d" "d \<le> daysInMonth y m"
  shows "YearFromTime (MakeDate (MakeDay y m d) 0) = y \<and>
         MonthFromTime (MakeDate (MakeDay y m d) 0) = m \<and>
         DateFromTime (MakeDate (MakeDay y m d) 0) = d"
proof -
  define l :: int where "l = (if isLeapYear y then 1 else 0)"
  define t where "t = MakeDate (MakeDay y m d) 0"
  define w where "w = monthStart m l + d - 1"
  have mm: "m div 12 = 0" "m mod 12 = m" using assms(1,2) by simp_all
  have day: "Day t = DayFromYear y + w"
    unfolding t_def w_def MakeDate_def MakeDay_def Let_def mm l_def Day_def msPerDay_def by simp
  have dm: "daysInMonth y m = (if m = 1 then 28 + l else 31 - ((m mod 7) mod 2))"
    unfolding daysInMonth_def Let_def mm l_def by simp
  have l01: "l = 0 \<or> l = 1" unfolding l_def by simp
  have diy: "DaysInYear y = 365 + l" unfolding DaysInYear_def l_def by simp
  have mft: "DayWithinYear t = w \<Longrightarrow> InLeapYear t = l \<Longrightarrow> MonthFromTime t =
     (if w < 31 then 0
         else if w < 59 + l then 1
         else if w < 90 + l then 2
         else if w < 120 + l then 3
         else if w < 151 + l then 4
         else if w < 181 + l then 5
         else if w < 212 + l then 6
         else if w < 243 + l then 7
         else if w < 273 + l then 8
         else if w < 304 + l then 9
         else if w < 334 + l then 10
         else 11)"
    unfolding MonthFromTime_def Let_def by simp
  have k: "0 \<le> w \<and> w < 365 + l \<and>
     (if w < 31 then 0
         else if w < 59 + l then 1
         else if w < 90 + l then 2
         else if w < 120 + l then 3
         else if w < 151 + l then 4
         else if w < 181 + l then 5
         else if w < 212 + l then 6
         else if w < 243 + l then 7
         else if w < 273 + l then 8
         else if w < 304 + l then 9
         else if w < 334 + l then 10
         else 11) = m"
  proof -
    have "m = 0 \<or> m = 1 \<or> m = 2 \<or> m = 3 \<or> m = 4 \<or> m = 5 \<or> m = 6 \<or> m = 7 \<or>
          m = 8 \<or> m = 9 \<or> m = 10 \<or> m = 11"
      using assms(1,2) by arith
    then consider (m0) "m = 0"
      | (m1) "m = 1"
      | (m2) "m = 2"
      | (m3) "m = 3"
      | (m4) "m = 4"
      | (m5) "m = 5"
      | (m6) "m = 6"
      | (m7) "m = 7"
      | (m8) "m = 8"
      | (m9) "m = 9"
      | (m10) "m = 10"
      | (m11) "m = 11"
      by blast
    then show ?thesis
    proof cases
      case m0
      with assms(3,4) l01 show ?thesis unfolding w_def dm monthStart_def by auto
    next
      case m1
      with assms(3,4) l01 show ?thesis unfolding w_def dm monthStart_def by auto
    next
      case m2
      with assms(3,4) l01 show ?thesis unfolding w_def dm monthStart_def by auto
    next
      case m3
      with assms(3,4) l01 show ?thesis unfolding w_def dm monthStart_def by auto
    next
      case m4
      with assms(3,4) l01 show ?thesis unfolding w_def dm monthStart_def by auto
    next
      case m5
      with assms(3,4) l01 show ?thesis unfolding w_def dm monthStart_def by auto
    next
      case m6
      with assms(3,4) l01 show ?thesis unfolding w_def dm monthStart_def by auto
    next
      case m7
      with assms(3,4) l01 show ?thesis unfolding w_def dm monthStart_def by auto
    next
      case m8
      with assms(3,4) l01 show ?thesis unfolding w_def dm monthStart_def by auto
    next
      case m9
      with assms(3,4) l01 show ?thesis unfolding w_def dm monthStart_def by auto
    next
      case m10
      with assms(3,4) l01 show ?thesis unfolding w_def dm monthStart_def by auto
    next
      case m11
      with assms(3,4) l01 show ?thesis unfolding w_def dm monthStart_def by auto
    qed
  qed
  from k have y: "YearFromTime t = y"
    by (intro YearFromTime_unique) (simp_all add: day DaysInYear_step diy)
  have dwy: "DayWithinYear t = w"
    unfolding DayWithinYear_def y day by simp
  have il: "InLeapYear t = l" unfolding InLeapYear_def y l_def by simp
  from mft [OF dwy il] k have mo: "MonthFromTime t = m" by simp
  have "DateFromTime t = d"
    unfolding DateFromTime_def dwy il mo w_def by simp
  with y mo show ?thesis unfolding t_def by simp
qed

lemma MonthFromTime_range: "0 \<le> MonthFromTime t \<and> MonthFromTime t \<le> 11"
  unfolding MonthFromTime_def Let_def by simp

lemma MakeDay_fields:
  "MakeDay (YearFromTime t) (MonthFromTime t) (DateFromTime t) = Day t"
proof -
  from MonthFromTime_range [of t]
  have "MonthFromTime t div 12 = 0" "MonthFromTime t mod 12 = MonthFromTime t" by simp_all
  then show ?thesis
    unfolding MakeDay_def Let_def DateFromTime_def DayWithinYear_def InLeapYear_def by simp
qed

lemma Day_midnight: "Day (k * msPerDay) = k"
  unfolding Day_def msPerDay_def by simp

lemma fields_of_Day:
  assumes "Day s = Day t"
  shows "YearFromTime s = YearFromTime t" "MonthFromTime s = MonthFromTime t"
    "DateFromTime s = DateFromTime t" "WeekDay s = WeekDay t"
proof -
  from assms show y: "YearFromTime s = YearFromTime t" unfolding YearFromTime_def by simp
  from assms y have d: "DayWithinYear s = DayWithinYear t" "InLeapYear s = InLeapYear t"
    unfolding DayWithinYear_def InLeapYear_def by simp_all
  then show m: "MonthFromTime s = MonthFromTime t" unfolding MonthFromTime_def by simp
  from d m show "DateFromTime s = DateFromTime t" unfolding DateFromTime_def by simp
  from assms show "WeekDay s = WeekDay t" unfolding WeekDay_def by simp
qed

section \<open>Properties: normalization of the date column\<close>

subsection \<open>Date objects\<close>

text \<open>
  C6, as the code has it. For a date object whose local year is not one of 0 to 99 and
  whose local day lies within the range of time values, the row's date is midnight UTC of
  the day whose year, month and day of the month are the local ones of the input.
\<close>

theorem date_object_normalized:
  assumes "\<not> (0 \<le> YearFromTime (localTime e t) \<and> YearFromTime (localTime e t) \<le> 99)"
    and "\<bar>Day (localTime e t) * msPerDay\<bar> \<le> 8640000000000000"
  shows "parseDate e (CDate (Some t)) = Some (Day (localTime e t) * msPerDay) \<and>
         TimeWithinDay (Day (localTime e t) * msPerDay) = 0 \<and>
         YearFromTime (Day (localTime e t) * msPerDay) = YearFromTime (localTime e t) \<and>
         MonthFromTime (Day (localTime e t) * msPerDay) = MonthFromTime (localTime e t) \<and>
         DateFromTime (Day (localTime e t) * msPerDay) = DateFromTime (localTime e t)"
proof -
  let ?l = "localTime e t"
  have "DateUTC (YearFromTime ?l) (MonthFromTime ?l) (DateFromTime ?l) =
          TimeClip (Day ?l * msPerDay)"
    using assms(1) unfolding DateUTC_def Let_def MakeDate_def by (auto simp: MakeDay_fields)
  also have "\<dots> = Some (Day ?l * msPerDay)"
    using assms(2) unfolding TimeClip_def by simp
  finally have p: "parseDate e (CDate (Some t)) = Some (Day ?l * msPerDay)"
    unfolding parseDate_def Let_def by simp
  have m: "TimeWithinDay (Day ?l * msPerDay) = 0"
    unfolding TimeWithinDay_def by simp
  from p m fields_of_Day [OF Day_midnight [of "Day ?l"] ] show ?thesis by simp
qed


theorem date_object_normalized_witness:
  "parseDate sampleEnv (CDate (Some 1709490600000)) = Some 1709510400000 \<and>
   YearFromTime (localTime sampleEnv 1709490600000) = 2024 \<and>
   MonthFromTime (localTime sampleEnv 1709490600000) = 2 \<and>
   DateFromTime (localTime sampleEnv 1709490600000) = 4 \<and>
   YearFromTime 1709510400000 = 2024 \<and> MonthFromTime 1709510400000 = 2 \<and>
   DateFromTime 1709510400000 = 4 \<and> TimeWithinDay 1709510400000 = 0 \<and>
   DateFromTime 1709490600000 = 3"
proof -
  have y: "YearFromTime (localTime sampleEnv 1709490600000) = 2024"
    and m: "MonthFromTime (localTime sampleEnv 1709490600000) = 2"
    and d: "DateFromTime (localTime sampleEnv 1709490600000) = 4"
    and u: "DateFromTime 1709490600000 = 3"
    by code_simp+
  have k: "Day (localTime sampleEnv 1709490600000) * msPerDay = 1709510400000"
    by code_simp
  from date_object_normalized [of sampleEnv 1709490600000] y m d u
  show ?thesis unfolding k by simp
qed

text \<open>
  C6 as stated covers every valid date: a date whose local fields are 15 June of the year
  50 is stored as 15 June 1950, and the earliest date there is, seen from a time zone
  west of Greenwich, falls on a local day whose midnight UTC is no time value, so that
  its row is skipped.
\<close>

theorem date_object_year_counterexample:
  "YearFromTime (localTime sampleEnv (- 60575059800000)) = 50 \<and>
   parseDate sampleEnv (CDate (Some (- 60575059800000))) = Some (- 616896000000) \<and>
   YearFromTime (- 616896000000) = 1950 \<and>
   parseDate westEnv (CDate (Some (- 8640000000000000))) = None"
  by code_simp

subsection \<open>Strings\<close>



















section \<open>Properties: queries over a period without records\<close>

lemma findMonth_Nil: "(findMonth my d = []) = (\<forall>a\<in>set (attendances d). monthYear a \<noteq> my)"
proof -
  have "length (findMonth my d) = length (filter (\<lambda>a. monthYear a = my) (attendances d))"
    unfolding findMonth_def by (rule length_sort)
  then have "(findMonth my d = []) = (filter (\<lambda>a. monthYear a = my) (attendances d) = [])"
    by (simp only: length_0_conv [symmetric])
  then show ?thesis by (simp add: filter_empty_conv)
qed

lemma groupBy_Nil: "groupBy k [] = []"
  by (simp add: groupBy_def)

lemma yearResponse_Nil:
  "matchRange (yearStart y) (yearStart (y + 1)) d = [] \<Longrightarrow> yearResponse y d = []"
  by (simp add: yearResponse_def groupBy_Nil)

lemma getMonth_no_data:
  assumes "y \<noteq> []" "m \<noteq> []"
    and "\<forall>a\<in>set (attendances d). monthYear a \<noteq> y @ ''-'' @ padStart 2 (CHR ''0'') m"
  shows "getMonth y m d =
        Failure 404
          [(''error'', JStr ''No data found''),
           (''message'', JStr (''No attendance data found for '' @
              (y @ ''-'' @ padStart 2 (CHR ''0'') m))),
           (''monthYear'', JStr (y @ ''-'' @ padStart 2 (CHR ''0'') m))]"
proof -
  define my where "my = y @ ''-'' @ padStart 2 (CHR ''0'') m"
  from assms(3) have "findMonth my d = []" unfolding my_def findMonth_Nil .
  with assms(1,2) show ?thesis
    unfolding getMonth_def Let_def my_def [symmetric] by simp
qed

lemma getPreviousMonth_no_data:
  "let prevYear0 = parseInt y;
        prevMonth0 = map_option (\<lambda>k. k - 1) (parseInt m);
        prevMonth = (if prevMonth0 = Some 0 then Some 12 else prevMonth0);
        prevYear = (if prevMonth0 = Some 0 then map_option (\<lambda>k. k - 1) prevYear0
                    else prevYear0);
        my = showNumber prevYear @ ''-'' @ padStart 2 (CHR ''0'') (showNumber prevMonth)
    in (\<forall>a\<in>set (attendances d). monthYear a \<noteq> my) \<longrightarrow>
         getPreviousMonth y m d =
           Failure 404 [(''error'', JStr ''No data found''),
                        (''message'', JStr (''No attendance data found for '' @ my))]"
proof -
  define prevMonth0 where "prevMonth0 = map_option (\<lambda>k. k - 1) (parseInt m)"
  define prevMonth where "prevMonth = (if prevMonth0 = Some 0 then Some 12 else prevMonth0)"
  define prevYear where
    "prevYear = (if prevMonth0 = Some 0 then map_option (\<lambda>k. k - 1) (parseInt y) else parseInt y)"
  define my where
    "my = showNumber prevYear @ ''-'' @ padStart 2 (CHR ''0'') (showNumber prevMonth)"
  have "(\<forall>a\<in>set (attendances d). monthYear a \<noteq> my) \<longrightarrow>
         getPreviousMonth y m d =
           Failure 404 [(''error'', JStr ''No data found''),
                        (''message'', JStr (''No attendance data found for '' @ my))]"
    unfolding getPreviousMonth_def Let_def prevMonth0_def [symmetric]
    unfolding prevMonth_def [symmetric] prevYear_def [symmetric]
    unfolding my_def [symmetric] findMonth_Nil by simp
  then show ?thesis
    unfolding Let_def my_def prevYear_def prevMonth_def prevMonth0_def .
qed

lemma getYearAggregated_no_data:
  "2000 \<le> yr \<and> yr \<le> currentYear e + 1 \<and>
    matchRange (yearStart yr) (yearStart (yr + 1)) d = [] \<longrightarrow>
      getYearAggregated e yr d = Failure 404 [(''error'', JStr ''No data found for this year'')]"
  unfolding getYearAggregated_def Let_def by (simp add: yearResponse_Nil)

lemma getWorkforce_empty:
  "2000 \<le> yr \<and> yr \<le> currentYear e + 1 \<and> 1 \<le> mo \<and> mo \<le> 12 \<and>
    matchRange (utcOfLocal e (MakeDate (MakeDay yr (mo - 1) 1) 0))
      (utcOfLocal e (MakeDate (MakeDay yr mo 1) 0)) d = [] \<longrightarrow>
      getWorkforce e yr mo d = Workforce yr mo []"
  unfolding getWorkforce_def Let_def by (simp add: groupBy_Nil)

lemma getEmployeesProductivity_empty:
  "2000 \<le> yr \<and> yr \<le> currentYear e + 1 \<and>
    matchRange (yearStart yr) (yearStart (yr + 1)) d = [] \<longrightarrow>
      getEmployeesProductivity e yr d = EmployeesProductivity yr []"
  unfolding getEmployeesProductivity_def Let_def by (simp add: groupBy_Nil)

lemma getMonth_no_data_imp:
  "y \<noteq> [] \<and> m \<noteq> [] \<and>
    (\<forall>a\<in>set (attendances d). monthYear a \<noteq> y @ ''-'' @ padStart 2 (CHR ''0'') m) \<longrightarrow>
      getMonth y m d =
        Failure 404
          [(''error'', JStr ''No data found''),
           (''message'', JStr (''No attendance data found for '' @
              (y @ ''-'' @ padStart 2 (CHR ''0'') m))),
           (''monthYear'', JStr (y @ ''-'' @ padStart 2 (CHR ''0'') m))]"
  using getMonth_no_data [of y m d] by blast

lemma april_empty:
  "matchRange (utcOfLocal sampleEnv (MakeDate (MakeDay 2024 (4 - 1) 1) 0))
     (utcOfLocal sampleEnv (MakeDate (MakeDay 2024 4 1) 0)) sampleDb = []"
  by code_simp

lemma year_2023_empty: "matchRange (yearStart 2023) (yearStart (2023 + 1)) sampleDb = []"
  by code_simp

text \<open>
  C9, as the code has it. When no stored record falls in the requested period, the month
  query, the previous-month query and the year query answer with a 404 failure; the
  workforce query and the employees' productivity query answer with a success whose list
  is empty.
\<close>

theorem no_data_responses:
  "(y \<noteq> [] \<and> m \<noteq> [] \<and>
    (\<forall>a\<in>set (attendances d). monthYear a \<noteq> y @ ''-'' @ padStart 2 (CHR ''0'') m) \<longrightarrow>
      getMonth y m d =
        Failure 404
          [(''error'', JStr ''No data found''),
           (''message'', JStr (''No attendance data found for '' @
              (y @ ''-'' @ padStart 2 (CHR ''0'') m))),
           (''monthYear'', JStr (y @ ''-'' @ padStart 2 (CHR ''0'') m))]) \<and>
   (let prevYear0 = parseInt y;
        prevMonth0 = map_option (\<lambda>k. k - 1) (parseInt m);
        prevMonth = (if prevMonth0 = Some 0 then Some 12 else prevMonth0);
        prevYear = (if prevMonth0 = Some 0 then map_option (\<lambda>k. k - 1) prevYear0
                    else prevYear0);
        my = showNumber prevYear @ ''-'' @ padStart 2 (CHR ''0'') (showNumber prevMonth)
    in (\<forall>a\<in>set (attendances d). monthYear a \<noteq> my) \<longrightarrow>
         getPreviousMonth y m d =
           Failure 404 [(''error'', JStr ''No data found''),
                        (''message'', JStr (''No attendance data found for '' @ my))]) \<and>
   (2000 \<le> yr \<and> yr \<le> currentYear e + 1 \<and>
    matchRange (yearStart yr) (yearStart (yr + 1)) d = [] \<longrightarrow>
      getYearAggregated e yr d = Failure 404 [(''error'', JStr ''No data found for this year'')]) \<and>
   (2000 \<le> yr \<and> yr \<le> currentYear e + 1 \<and> 1 \<le> mo \<and> mo \<le> 12 \<and>
    matchRange (utcOfLocal e (MakeDate (MakeDay yr (mo - 1) 1) 0))
      (utcOfLocal e (MakeDate (MakeDay yr mo 1) 0)) d = [] \<longrightarrow>
      getWorkforce e yr mo d = Workforce yr mo []) \<and>
   (2000 \<le> yr \<and> yr \<le> currentYear e + 1 \<and>
    matchRange (yearStart yr) (yearStart (yr + 1)) d = [] \<longrightarrow>
      getEmployeesProductivity e yr d = EmployeesProductivity yr [])"
  by (intro conjI)
     (rule getMonth_no_data_imp getPreviousMonth_no_data getYearAggregated_no_data
        getWorkforce_empty getEmployeesProductivity_empty)+

theorem no_data_responses_witness:
  "getMonth ''2024'' ''4'' sampleDb =
     Failure 404
       [(''error'', JStr ''No data found''),
        (''message'', JStr ''No attendance data found for 2024-04''),
        (''monthYear'', JStr ''2024-04'')] \<and>
   getPreviousMonth ''2024'' ''5'' sampleDb =
     Failure 404 [(''error'', JStr ''No data found''),
                  (''message'', JStr ''No attendance data found for 2024-04'')] \<and>
   getYearAggregated sampleEnv 2023 sampleDb =
     Failure 404 [(''error'', JStr ''No data found for this year'')] \<and>
   getWorkforce sampleEnv 2024 4 sampleDb = Workforce 2024 4 [] \<and>
   getEmployeesProductivity sampleEnv 2023 sampleDb = EmployeesProductivity 2023 []"
proof -
  have p: "parseInt ''2024'' = Some 2024" "parseInt ''5'' = Some 5"
    "showNumber (Some 2024) = ''2024''" "showNumber (Some 4) = ''4''"
    by code_simp+
  have c: "currentYear sampleEnv = 2024" by (simp add: sampleEnv_def)
  have a: "attendances sampleDb = [storedDay]" "monthYear storedDay = ''2024-03''"
    by (simp_all add: sampleDb_def storedDay_def)
  have l: "''2024'' @ ''-'' @ padStart 2 (CHR ''0'') ''4'' = ''2024-04''"
    by (simp add: padStart_def)
  note t1 = no_data_responses [of "''2024''" "''4''" sampleDb 2023 sampleEnv 4]
  note t2 = no_data_responses [of "''2024''" "''5''" sampleDb 2024 sampleEnv 4]
  from t1 [THEN conjunct1] have 1: "getMonth ''2024'' ''4'' sampleDb =
     Failure 404
       [(''error'', JStr ''No data found''),
        (''message'', JStr ''No attendance data found for 2024-04''),
        (''monthYear'', JStr ''2024-04'')]"
    by (simp add: padStart_def a)
  from t1 [THEN conjunct2, THEN conjunct2, THEN conjunct1] year_2023_empty c
  have 3: "getYearAggregated sampleEnv 2023 sampleDb =
     Failure 404 [(''error'', JStr ''No data found for this year'')]"
    by simp
  from t1 [THEN conjunct2, THEN conjunct2, THEN conjunct2, THEN conjunct2] year_2023_empty c
  have 5: "getEmployeesProductivity sampleEnv 2023 sampleDb = EmployeesProductivity 2023 []"
    by simp
  from t2 [THEN conjunct2, THEN conjunct1]
  have 2: "getPreviousMonth ''2024'' ''5'' sampleDb =
     Failure 404 [(''error'', JStr ''No data found''),
                  (''message'', JStr ''No attendance data found for 2024-04'')]"
    by (simp add: Let_def p padStart_def a)
  from t2 [THEN conjunct2, THEN conjunct2, THEN conjunct2, THEN conjunct1] april_empty c
  have 4: "getWorkforce sampleEnv 2024 4 sampleDb = Workforce 2024 4 []"
    by simp
  from 1 2 3 4 5 show ?thesis by simp
qed

text \<open>
  C9 as stated has every query fail on a period without records: the store holds nothing
  of April 2024, and the workforce query answers with an empty breakdown.
\<close>

theorem workforce_empty_counterexample:
  "matchRange (utcOfLocal sampleEnv (MakeDate (MakeDay 2024 (4 - 1) 1) 0))
     (utcOfLocal sampleEnv (MakeDate (MakeDay 2024 4 1) 0)) sampleDb = [] \<and>
   getWorkforce sampleEnv 2024 4 sampleDb = Workforce 2024 4 []"
  by code_simp

section \<open>Properties: best and worst month of a year\<close>

text \<open>
  What the loop over the months computes. The best month has the greatest productivity of
  all months. The worst month has the least productivity among the months above 0, as
  long as that is below 100; otherwise the initial value (month 0, productivity 100)
  stays, which is reported as N/A.
\<close>

lemma monthStep_fst:
  "fst (monthStep (best, worst, ex) (mn, p, lv)) = (if p > snd best then (mn, p) else best)"
  "fst (snd (monthStep (best, worst, ex) (mn, p, lv))) =
     (if p < snd worst \<and> p > 0 then (mn, p) else worst)"
  by (simp_all add: monthStep_def)

lemma foldl_monthStep_best:
  "snd best \<le> snd (fst (foldl monthStep (best, worst, ex) ms)) \<and>
   (\<forall>(mn, p, lv)\<in>set ms. p \<le> snd (fst (foldl monthStep (best, worst, ex) ms))) \<and>
   (fst (foldl monthStep (best, worst, ex) ms) = best \<or>
    (\<exists>lv. (fst (fst (foldl monthStep (best, worst, ex) ms)),
           snd (fst (foldl monthStep (best, worst, ex) ms)), lv) \<in> set ms))"
proof (induction ms arbitrary: best worst ex)
  case Nil
  show ?case by simp
next
  case (Cons mo ms)
  obtain mn p lv where mo: "mo = (mn, p, lv)" by (cases mo)
  obtain b' w' e' where s: "monthStep (best, worst, ex) mo = (b', w', e')"
    by (cases "monthStep (best, worst, ex) mo")
  from monthStep_fst(1) [of best worst ex mn p lv] s mo
  have b': "b' = (if p > snd best then (mn, p) else best)" by simp
  note ih = Cons.IH [of b' w' e']
  show ?case
  proof (cases "p > snd best")
    case True
    with b' have "b' = (mn, p)" by simp
    with ih True show ?thesis unfolding mo by (auto simp: s [unfolded mo])
  next
    case False
    with b' have "b' = best" by simp
    with ih False show ?thesis unfolding mo by (auto simp: s [unfolded mo])
  qed
qed

lemma foldl_monthStep_worst:
  "snd (fst (snd (foldl monthStep (best, worst, ex) ms))) \<le> snd worst \<and>
   (\<forall>(mn, p, lv)\<in>set ms. 0 < p \<longrightarrow> snd (fst (snd (foldl monthStep (best, worst, ex) ms))) \<le> p) \<and>
   (fst (snd (foldl monthStep (best, worst, ex) ms)) = worst \<or>
    (0 < snd (fst (snd (foldl monthStep (best, worst, ex) ms))) \<and>
     (\<exists>lv. (fst (fst (snd (foldl monthStep (best, worst, ex) ms))),
           snd (fst (snd (foldl monthStep (best, worst, ex) ms))), lv) \<in> set ms)))"
proof (induction ms arbitrary: best worst ex)
  case Nil
  show ?case by simp
next
  case (Cons mo ms)
  obtain mn p lv where mo: "mo = (mn, p, lv)" by (cases mo)
  obtain b' w' e' where s: "monthStep (best, worst, ex) mo = (b', w', e')"
    by (cases "monthStep (best, worst, ex) mo")
  from monthStep_fst(2) [of best worst ex mn p lv] s mo
  have w': "w' = (if p < snd worst \<and> p > 0 then (mn, p) else worst)" by simp
  note ih = Cons.IH [of b' w' e']
  show ?case
  proof (cases "p < snd worst \<and> p > 0")
    case True
    with w' have "w' = (mn, p)" by simp
    with ih True show ?thesis unfolding mo by (auto simp: s [unfolded mo])
  next
    case False
    with w' have "w' = worst" by simp
    with ih False show ?thesis unfolding mo by (auto simp: s [unfolded mo])
  qed
qed

lemma monthLoop_worst_sentinel:
  assumes "\<forall>(mn, p, lv)\<in>set ms. p \<le> 0 \<or> 100 \<le> p"
  shows "fst (snd (foldl monthStep (best, (0, 100), ex) ms)) = (0, 100)"
  using assms
proof (induction ms arbitrary: best ex)
  case Nil
  show ?case by simp
next
  case (Cons mo ms)
  obtain mn p lv where mo: "mo = (mn, p, lv)" by (cases mo)
  with Cons.prems have "p \<le> 0 \<or> 100 \<le> p" by simp
  then have "monthStep (best, (0, 100), ex) mo =
      (if p > snd best then (mn, p) else best, (0, 100), if lv > 2 then ex + 1 else ex)"
    unfolding mo monthStep_def by auto
  with Cons show ?case by simp
qed

text \<open>
  C5 has the worst month be the month of least productivity among the months above 0.
  The code departs from it here: an employee with a single month, of productivity exactly
  100, has that month as best month and N/A as worst month.
\<close>

theorem worst_month_at_full_productivity:
  "getYearAggregated sampleEnv 2024 sampleDb =
     YearAggregated 2024 1 (17 / 2) 0 100 (17 / 2)
       [\<lparr>yearEmployee.employeeId = Some 1, yearEmployee.employeeName = ''Asha'',
         yearEmployee.totalWorkedHours = 17 / 2, totalLeavesTaken = 0, totalLeavesAllowed = 2,
         avgProductivity = 100, avgMonthlyHours = 17 / 2, exceededLimitMonths = 0,
         bestMonth = ''March (100.0%)'', worstMonth = ''N/A'',
         monthlyData = [(3, 100, 0)]\<rparr>] 1"
  by code_simp

end
